theory Spec2Isabelle
  imports Complex_Main "HOL-Library.Char_ord" "HOL-Library.List_Lexorder"
begin

section \<open>Python string operations used by the loader\<close>

text \<open>
  A file name is a \<open>string\<close>. The loader uses three operations of Python's \<open>str\<close>:
  the substring test \<^verbatim>\<open>pat in s\<close>, \<^verbatim>\<open>s.replace(pat, '')\<close> and
  \<^verbatim>\<open>s.rsplit('_', 1)[0]\<close>.
\<close>

definition startswith :: "'a list \<Rightarrow> 'a list \<Rightarrow> bool" where
  "startswith pat s = (take (length pat) s = pat)"

text \<open>\<^verbatim>\<open>pat in s\<close>: some suffix of \<open>s\<close> starts with \<open>pat\<close>.\<close>

fun contains :: "'a list \<Rightarrow> 'a list \<Rightarrow> bool" where
  "contains pat [] = (pat = [])"
| "contains pat (c # cs) = (startswith pat (c # cs) \<or> contains pat cs)"

text \<open>
  \<^verbatim>\<open>s.replace(pat, '')\<close>: every occurrence of \<open>pat\<close> is deleted, scanning from the
  left without overlap. \<open>skip\<close> counts the characters of the current occurrence that
  remain to be dropped. (Python leaves \<open>s\<close> as it is for an empty \<open>pat\<close>.)
\<close>

fun replace_scan :: "'a list \<Rightarrow> nat \<Rightarrow> 'a list \<Rightarrow> 'a list" where
  "replace_scan pat skip [] = []"
| "replace_scan pat (Suc k) (c # cs) = replace_scan pat k cs"
| "replace_scan pat 0 (c # cs) =
     (if startswith pat (c # cs) then replace_scan pat (length pat - 1) cs
      else c # replace_scan pat 0 cs)"

definition replace_del :: "'a list \<Rightarrow> 'a list \<Rightarrow> 'a list" where
  "replace_del pat s = (if pat = [] then s else replace_scan pat 0 s)"

text \<open>
  \<^verbatim>\<open>s.rsplit(sep, 1)[0]\<close> for a one-character separator: the part before the last
  \<open>sep\<close>, or all of \<open>s\<close> when \<open>sep\<close> does not occur.
\<close>

definition rsplit1_head :: "'a \<Rightarrow> 'a list \<Rightarrow> 'a list" where
  "rsplit1_head sep s =
     (if sep \<in> set s then rev (tl (dropWhile (\<lambda>c. c \<noteq> sep) (rev s))) else s)"

section \<open>File name classification\<close>

datatype category = Blog | Shop | Trend | News

text \<open>
  The first \<^verbatim>\<open>if/elif\<close> chain of \<^verbatim>\<open>load_and_preprocess_data\<close>: the keyword of a
  file name, \<open>None\<close> for the \<^verbatim>\<open>continue\<close> branch.
\<close>

definition extract_keyword :: "string \<Rightarrow> string option" where
  "extract_keyword filename =
     (if contains ''blog_'' filename then
        Some (rsplit1_head (CHR ''_'') (replace_del ''blog_'' filename))
      else if contains ''shopping_trend_'' filename then
        Some (rsplit1_head (CHR ''_'') (replace_del ''shopping_trend_'' filename))
      else if contains ''shop_'' filename then
        Some (rsplit1_head (CHR ''_'') (replace_del ''shop_'' filename))
      else if contains ''news_'' filename then
        Some (rsplit1_head (CHR ''_'') (replace_del ''news_'' filename))
      else None)"

text \<open>
  The second chain, inside the \<^verbatim>\<open>try\<close>: the list the frame is appended to. It tests
  \<^verbatim>\<open>'shopping_trend'\<close> without the trailing underscore, and appends nothing when no
  test succeeds.
\<close>

definition dispatch :: "string \<Rightarrow> category option" where
  "dispatch filename =
     (if contains ''blog_'' filename then Some Blog
      else if contains ''shopping_trend'' filename then Some Trend
      else if contains ''shop_'' filename then Some Shop
      else if contains ''news_'' filename then Some News
      else None)"

text \<open>Both chains together: the category and the keyword of a file that is loaded.\<close>

definition classify :: "string \<Rightarrow> (category \<times> string) option" where
  "classify filename =
     (case extract_keyword filename of
        None \<Rightarrow> None
      | Some keyword \<Rightarrow>
          (case dispatch filename of
             None \<Rightarrow> None
           | Some cat \<Rightarrow> Some (cat, keyword)))"

section \<open>Tables\<close>

text \<open>
  A calendar date, ordered as \<^verbatim>\<open>datetime.date\<close> is: by year, then month, then day.
\<close>

datatype date = Date (year: nat) (month: nat) (day: nat)

fun date_le :: "date \<Rightarrow> date \<Rightarrow> bool" where
  "date_le (Date y1 m1 d1) (Date y2 m2 d2) =
     (y1 < y2 \<or> (y1 = y2 \<and> (m1 < m2 \<or> (m1 = m2 \<and> d1 \<le> d2))))"

text \<open>
  A cell of a table: a missing value (\<open>NaN\<close>), a missing timestamp (\<open>NaT\<close>), a string,
  a number, or a timestamp made of a date and the second of the day.
\<close>

datatype cell = NaN | NaT | Str string | Num real | Stamp date nat

datatype error =
    KeyError string
  | AttributeError
  | TypeError
  | ValueError
  | ReadError

text \<open>
  A pandas \<open>DataFrame\<close>: its column labels and its rows. A row maps a label to a cell;
  a label of the frame that a row does not bind reads as \<open>NaN\<close> (what \<^verbatim>\<open>pd.concat\<close>
  fills in for a column that one of the frames lacks).
\<close>

type_synonym row = "string \<rightharpoonup> cell"

record dataframe =
  columns :: "string list"
  rows :: "row list"

definition DataFrame :: dataframe where
  "DataFrame = \<lparr>columns = [], rows = []\<rparr>"

text \<open>\<^verbatim>\<open>df.empty\<close>: one of the two axes has length 0.\<close>

definition df_empty :: "dataframe \<Rightarrow> bool" where
  "df_empty df = (columns df = [] \<or> rows df = [])"

definition cell_of :: "row \<Rightarrow> string \<Rightarrow> cell" where
  "cell_of r c = (case r c of None \<Rightarrow> NaN | Some v \<Rightarrow> v)"

definition and_then :: "error + 'a \<Rightarrow> ('a \<Rightarrow> error + 'b) \<Rightarrow> error + 'b" where
  "and_then m f = (case m of Inl e \<Rightarrow> Inl e | Inr x \<Rightarrow> f x)"

text \<open>\<^verbatim>\<open>df[c]\<close> raises \<open>KeyError\<close> for a label the frame does not have.\<close>

definition getitem :: "dataframe \<Rightarrow> string \<Rightarrow> error + cell list" where
  "getitem df c =
     (if c \<in> set (columns df) then Inr (map (\<lambda>r. cell_of r c) (rows df))
      else Inl (KeyError c))"

text \<open>\<^verbatim>\<open>df[c] = v\<close> for a scalar \<open>v\<close>: the column is added, or overwritten, in every row.\<close>

definition setitem :: "dataframe \<Rightarrow> string \<Rightarrow> cell \<Rightarrow> dataframe" where
  "setitem df c v =
     \<lparr>columns = (if c \<in> set (columns df) then columns df else columns df @ [c]),
      rows = map (\<lambda>r. r(c \<mapsto> v)) (rows df)\<rparr>"

text \<open>
  \<^verbatim>\<open>df[c] = pd.to_datetime(df[c], ..., errors='coerce')\<close>. The parser is pandas' own and
  is a parameter \<open>parse\<close> here: it yields the date and the second of the day of a cell it
  can read, and \<open>None\<close> otherwise, which \<^verbatim>\<open>errors='coerce'\<close> turns into \<open>NaT\<close>.
\<close>

type_synonym parser = "string option \<Rightarrow> cell \<Rightarrow> (date \<times> nat) option"

definition coerce :: "(date \<times> nat) option \<Rightarrow> cell" where
  "coerce p = (case p of None \<Rightarrow> NaT | Some (d, t) \<Rightarrow> Stamp d t)"

definition to_datetime_column :: "parser \<Rightarrow> string option \<Rightarrow> dataframe \<Rightarrow> string \<Rightarrow> error + dataframe" where
  "to_datetime_column parse fmt df c =
     (if c \<in> set (columns df)
      then Inr (df\<lparr>rows := map (\<lambda>r. r(c \<mapsto> coerce (parse fmt (cell_of r c)))) (rows df)\<rparr>)
      else Inl (KeyError c))"

text \<open>Values in the order of their first occurrence (\<^verbatim>\<open>Series.unique()\<close>).\<close>

fun unique :: "'a list \<Rightarrow> 'a list" where
  "unique [] = []"
| "unique (x # xs) = x # unique (filter (\<lambda>y. y \<noteq> x) xs)"

text \<open>
  \<^verbatim>\<open>pd.concat(frames, ignore_index=True)\<close>: the rows of all frames in order, under the
  union of their columns.
\<close>

definition concat_frames :: "dataframe list \<Rightarrow> dataframe" where
  "concat_frames dfs =
     \<lparr>columns = unique (concat (map columns dfs)), rows = concat (map rows dfs)\<rparr>"

section \<open>Loading\<close>

record tables =
  blog_df :: dataframe
  shop_df :: dataframe
  trend_df :: dataframe
  news_df :: dataframe

text \<open>
  The state of the loop of \<^verbatim>\<open>load_and_preprocess_data\<close>: the four lists of frames and
  the files reported through \<^verbatim>\<open>st.error\<close>.
\<close>

record load_state =
  blog_list :: "dataframe list"
  shop_list :: "dataframe list"
  trend_list :: "dataframe list"
  news_list :: "dataframe list"
  reported :: "(string \<times> error) list"

definition report :: "string \<Rightarrow> error \<Rightarrow> load_state \<Rightarrow> load_state" where
  "report filename e st = st\<lparr>reported := reported st @ [(filename, e)]\<rparr>"

text \<open>
  One iteration of the loop. A file is its base name and what \<^verbatim>\<open>pd.read_csv\<close> returns
  for it: a frame, or the exception it raises. Every exception inside the \<^verbatim>\<open>try\<close> is
  caught and reported, and the file is then in no list.
\<close>

definition load_file :: "parser \<Rightarrow> string \<times> (error + dataframe) \<Rightarrow> load_state \<Rightarrow> load_state" where
  "load_file parse file st =
     (let filename = fst file in
      case extract_keyword filename of
        None \<Rightarrow> st
      | Some keyword \<Rightarrow>
          (case snd file of
             Inl e \<Rightarrow> report filename e st
           | Inr csv \<Rightarrow>
               (let df = setitem csv ''target_keyword'' (Str keyword) in
                case dispatch filename of
                  Some Blog \<Rightarrow>
                    (case to_datetime_column parse (Some ''%Y%m%d'') df ''postdate'' of
                       Inl e \<Rightarrow> report filename e st
                     | Inr df' \<Rightarrow> st\<lparr>blog_list := blog_list st @ [df']\<rparr>)
                | Some Trend \<Rightarrow>
                    (case to_datetime_column parse None df ''period'' of
                       Inl e \<Rightarrow> report filename e st
                     | Inr df' \<Rightarrow> st\<lparr>trend_list := trend_list st @ [df']\<rparr>)
                | Some Shop \<Rightarrow> st\<lparr>shop_list := shop_list st @ [df]\<rparr>
                | Some News \<Rightarrow>
                    (case to_datetime_column parse None df ''pubDate'' of
                       Inl e \<Rightarrow> report filename e st
                     | Inr df' \<Rightarrow> st\<lparr>news_list := news_list st @ [df']\<rparr>)
                | None \<Rightarrow> st)))"

definition load_init :: load_state where
  "load_init = \<lparr>blog_list = [], shop_list = [], trend_list = [], news_list = [], reported = []\<rparr>"

definition load_loop :: "parser \<Rightarrow> (string \<times> (error + dataframe)) list \<Rightarrow> load_state" where
  "load_loop parse files = foldl (\<lambda>st file. load_file parse file st) load_init files"

definition concat_or_empty :: "dataframe list \<Rightarrow> dataframe" where
  "concat_or_empty dfs = (if dfs \<noteq> [] then concat_frames dfs else DataFrame)"

definition load_and_preprocess_data :: "parser \<Rightarrow> (string \<times> (error + dataframe)) list \<Rightarrow> tables" where
  "load_and_preprocess_data parse files =
     (let st = load_loop parse files in
      \<lparr>blog_df = concat_or_empty (blog_list st),
       shop_df = concat_or_empty (shop_list st),
       trend_df = concat_or_empty (trend_list st),
       news_df = concat_or_empty (news_list st)\<rparr>)"

section \<open>Sidebar\<close>

text \<open>
  What the user enters in the two widgets. \<^verbatim>\<open>st.sidebar.multiselect\<close> returns only
  entries of its option list; \<^verbatim>\<open>st.sidebar.date_input\<close> with a two-element default
  returns the dates picked so far (none, one or two).
\<close>

record ui =
  keyword_picks :: "string list"
  date_picks :: "date list"

definition multiselect :: "string list \<Rightarrow> string list \<Rightarrow> string list" where
  "multiselect options picks = filter (\<lambda>k. k \<in> set options) picks"

fun str_cell :: "cell \<Rightarrow> string option" where
  "str_cell (Str s) = Some s"
| "str_cell _ = None"

text \<open>
  \<^verbatim>\<open>sorted(trend_df['target_keyword'].unique().tolist()) if not trend_df.empty else []\<close>.
  The loader writes a string into every cell of that column; \<^verbatim>\<open>sorted\<close> raises
  \<open>TypeError\<close> on a list that mixes strings with other values, and the model reports
  \<open>TypeError\<close> for any cell that is not a string.
\<close>

definition all_keywords :: "dataframe \<Rightarrow> error + string list" where
  "all_keywords trend =
     (if \<not> df_empty trend then
        and_then (getitem trend ''target_keyword'') (\<lambda>col.
          if list_all (\<lambda>c. str_cell c \<noteq> None) (unique col)
          then Inr (sort (map (\<lambda>c. the (str_cell c)) (unique col)))
          else Inl TypeError)
      else Inr [])"

text \<open>The date of a timestamp; a cell that holds none has no date.\<close>

fun date_part :: "cell \<Rightarrow> date option" where
  "date_part (Stamp d t) = Some d"
| "date_part _ = None"

text \<open>
  Lines 65 to 74: the selected keywords and the date range. With an empty trend table
  the date widget is not shown and \<^verbatim>\<open>date_range = []\<close>. Otherwise the widget gets
  \<^verbatim>\<open>trend_df['period'].min()\<close> and \<^verbatim>\<open>.max()\<close> as its default and its bounds: when
  no period is a timestamp both are \<open>NaT\<close>, and \<^verbatim>\<open>st.sidebar.date_input\<close> raises
  \<open>ValueError\<close>.
\<close>

definition sidebar :: "ui \<Rightarrow> dataframe \<Rightarrow> error + (string list \<times> date list)" where
  "sidebar u trend =
     and_then (all_keywords trend) (\<lambda>options.
       let selected_keywords = multiselect options (keyword_picks u) in
       if \<not> df_empty trend then
         and_then (getitem trend ''period'') (\<lambda>period.
           if list_all (\<lambda>c. date_part c = None) period then Inl ValueError
           else Inr (selected_keywords, date_picks u))
       else Inr (selected_keywords, []))"

section \<open>Filtering\<close>

text \<open>\<^verbatim>\<open>col.isin(selected_keywords)\<close>: a cell matches when it is one of the strings.\<close>

definition isin :: "cell list \<Rightarrow> string list \<Rightarrow> bool list" where
  "isin col vals = map (\<lambda>c. case str_cell c of None \<Rightarrow> False | Some s \<Rightarrow> s \<in> set vals) col"

text \<open>
  \<^verbatim>\<open>col.dt.date\<close>: the accessor raises \<open>AttributeError\<close> unless the column holds
  timestamps; \<open>NaT\<close> stays a missing value.
\<close>

fun datetimelike :: "cell \<Rightarrow> bool" where
  "datetimelike (Stamp d t) = True"
| "datetimelike NaT = True"
| "datetimelike _ = False"

definition dt_date :: "cell list \<Rightarrow> error + date option list" where
  "dt_date col = (if list_all datetimelike col then Inr (map date_part col) else Inl AttributeError)"

text \<open>
  \<^verbatim>\<open>dates >= start_date\<close> and \<^verbatim>\<open>dates <= end_date\<close>, element by element; a missing
  value compares \<open>False\<close>.
\<close>

definition ge_date :: "date option list \<Rightarrow> date \<Rightarrow> bool list" where
  "ge_date ds start_date = map (\<lambda>d. case d of None \<Rightarrow> False | Some x \<Rightarrow> date_le start_date x) ds"

definition le_date :: "date option list \<Rightarrow> date \<Rightarrow> bool list" where
  "le_date ds end_date = map (\<lambda>d. case d of None \<Rightarrow> False | Some x \<Rightarrow> date_le x end_date) ds"

definition mask_and :: "bool list \<Rightarrow> bool list \<Rightarrow> bool list" where
  "mask_and a b = map (\<lambda>(x, y). x \<and> y) (zip a b)"

text \<open>\<^verbatim>\<open>df[mask]\<close>: the rows at which the mask is \<open>True\<close>, under the same columns.\<close>

definition getitem_mask :: "dataframe \<Rightarrow> bool list \<Rightarrow> dataframe" where
  "getitem_mask df msk = df\<lparr>rows := map fst (filter snd (zip (rows df) msk))\<rparr>"

text \<open>The expression of lines 79 to 81 (and 82 to 84), for a table and its date column.\<close>

definition keyword_date_filter ::
  "dataframe \<Rightarrow> string \<Rightarrow> string list \<Rightarrow> date \<Rightarrow> date \<Rightarrow> error + dataframe" where
  "keyword_date_filter df datecol selected_keywords start_date end_date =
     and_then (getitem df ''target_keyword'') (\<lambda>kw.
     and_then (getitem df datecol) (\<lambda>col1.
     and_then (dt_date col1) (\<lambda>dates1.
     and_then (getitem df datecol) (\<lambda>col2.
     and_then (dt_date col2) (\<lambda>dates2.
       Inr (getitem_mask df
              (mask_and (mask_and (isin kw selected_keywords) (ge_date dates1 start_date))
                        (le_date dates2 end_date))))))))"

text \<open>The expression of line 85 (and 86).\<close>

definition keyword_filter :: "dataframe \<Rightarrow> string list \<Rightarrow> error + dataframe" where
  "keyword_filter df selected_keywords =
     and_then (getitem df ''target_keyword'') (\<lambda>kw.
       Inr (getitem_mask df (isin kw selected_keywords)))"

text \<open>
  Lines 77 to 88. The tables of the result are \<^verbatim>\<open>f_blog\<close>, \<^verbatim>\<open>f_shop\<close>,
  \<^verbatim>\<open>f_trend\<close> and \<^verbatim>\<open>f_news\<close>; an exception of one of the four expressions ends the
  script.
\<close>

definition filter_block :: "string list \<Rightarrow> date list \<Rightarrow> tables \<Rightarrow> error + tables" where
  "filter_block selected_keywords date_range t =
     (if length date_range = 2 then
        let start_date = date_range ! 0; end_date = date_range ! 1 in
        and_then (keyword_date_filter (trend_df t) ''period'' selected_keywords start_date end_date)
          (\<lambda>f_trend.
        and_then (keyword_date_filter (blog_df t) ''postdate'' selected_keywords start_date end_date)
          (\<lambda>f_blog.
        and_then (keyword_filter (news_df t) selected_keywords) (\<lambda>f_news.
        and_then (keyword_filter (shop_df t) selected_keywords) (\<lambda>f_shop.
          Inr \<lparr>blog_df = f_blog, shop_df = f_shop, trend_df = f_trend, news_df = f_news\<rparr>))))
      else Inr t)"

text \<open>Lines 61 to 88: the tables handed to the four sections.\<close>

definition filtered_tables :: "ui \<Rightarrow> tables \<Rightarrow> error + tables" where
  "filtered_tables u t =
     and_then (sidebar u (trend_df t)) (\<lambda>(selected_keywords, date_range).
       filter_block selected_keywords date_range t)"

section \<open>Keyword ranking: \<^verbatim>\<open>TfidfVectorizer(max_features=n).fit_transform\<close>\<close>

text \<open>
  The vectorizer is scikit-learn's. An analyzer turns a document into its tokens; the
  functions below take it as the parameter \<open>analyzer\<close>, so that what is proved about
  them holds for every analyzer. The default one lower-cases the document and takes the
  maximal runs of at least two word characters (the pattern \<^verbatim>\<open>(?u)\b\w\w+\b\<close>).

  A Python \<open>str\<close> is a sequence of characters. The text of a cell is a \<open>string\<close> here,
  the UTF-8 encoding that \<^verbatim>\<open>read_csv\<close> decodes: \<open>characters\<close> splits it into the
  encodings of its characters (a byte and the continuation bytes after it), and
  \<open>code_point\<close> decodes one of them; what is not the encoding of a character decodes
  to \<open>U+FFFD\<close>, which is neither white space nor a word character.
\<close>

definition continuation :: "char \<Rightarrow> bool" where
  "continuation b = (let n = (of_char b :: nat) in 128 \<le> n \<and> n < 192)"

function characters :: "string \<Rightarrow> string list" where
  "characters [] = []"
| "characters (b # bs) = (b # takeWhile continuation bs) # characters (dropWhile continuation bs)"
  by pat_completeness auto
termination
  by (relation "measure length") (auto simp: length_dropWhile_le less_Suc_eq_le)

definition code_point :: "string \<Rightarrow> nat" where
  "code_point ch =
     (case map of_char ch of
        [a] \<Rightarrow> if a < 128 then a else 65533
      | [a, b] \<Rightarrow> if 192 \<le> a \<and> a < 224 then (a - 192) * 64 + (b - 128) else 65533
      | [a, b, c] \<Rightarrow>
          if 224 \<le> a \<and> a < 240 then (a - 224) * 4096 + (b - 128) * 64 + (c - 128) else 65533
      | [a, b, c, d] \<Rightarrow>
          if 240 \<le> a \<and> a < 248
          then (a - 240) * 262144 + (b - 128) * 4096 + (c - 128) * 64 + (d - 128)
          else 65533
      | _ \<Rightarrow> 65533)"

text \<open>
  The characters for which \<^verbatim>\<open>str.isspace\<close> holds, which are those that \<^verbatim>\<open>\s\<close>
  matches: \<open>U+0009\<close> to \<open>U+000D\<close>, \<open>U+001C\<close> to \<open>U+0020\<close>, \<open>U+0085\<close>, \<open>U+00A0\<close>,
  \<open>U+1680\<close>, \<open>U+2000\<close> to \<open>U+200A\<close>, \<open>U+2028\<close>, \<open>U+2029\<close>, \<open>U+202F\<close>, \<open>U+205F\<close> and
  \<open>U+3000\<close>.
\<close>

definition is_space :: "nat \<Rightarrow> bool" where
  "is_space n =
     ((9 \<le> n \<and> n \<le> 13) \<or> (28 \<le> n \<and> n \<le> 32) \<or> n = 133 \<or> n = 160 \<or> n = 5760
      \<or> (8192 \<le> n \<and> n \<le> 8202) \<or> n = 8232 \<or> n = 8233 \<or> n = 8239 \<or> n = 8287
      \<or> n = 12288)"

text \<open>
  What Python takes from the Unicode database for the characters above 127 is a
  parameter: \<open>uni_word\<close> tells whether \<^verbatim>\<open>\w\<close> matches a character, and \<open>uni_lower\<close> is
  \<^verbatim>\<open>str.lower\<close> on a text that has such characters. Below 128 both are written out:
  the word characters are the letters, the digits and the underscore.
\<close>

record unicode =
  uni_word :: "nat \<Rightarrow> bool"
  uni_lower :: "string \<Rightarrow> string"

definition is_word_char :: "unicode \<Rightarrow> nat \<Rightarrow> bool" where
  "is_word_char u n =
     (if n < 128
      then (48 \<le> n \<and> n \<le> 57) \<or> (65 \<le> n \<and> n \<le> 90) \<or> n = 95 \<or> (97 \<le> n \<and> n \<le> 122)
      else uni_word u n)"

definition lower_char :: "char \<Rightarrow> char" where
  "lower_char c =
     (let n = (of_char c :: nat) in if 65 \<le> n \<and> n \<le> 90 then char_of (n + 32) else c)"

definition lower_text :: "unicode \<Rightarrow> string \<Rightarrow> string" where
  "lower_text u doc =
     (if list_all (\<lambda>c. (of_char c :: nat) < 128) doc then map lower_char doc
      else uni_lower u doc)"

definition flush :: "string list \<Rightarrow> string list" where
  "flush cur = (if 2 \<le> length cur then [concat (rev cur)] else [])"

text \<open>\<open>cur\<close> is the run of word characters read so far, last character first.\<close>

fun token_scan :: "unicode \<Rightarrow> string list \<Rightarrow> string list \<Rightarrow> string list" where
  "token_scan u cur [] = flush cur"
| "token_scan u cur (ch # chs) =
     (if is_word_char u (code_point ch) then token_scan u (ch # cur) chs
      else flush cur @ token_scan u [] chs)"

definition build_analyzer :: "unicode \<Rightarrow> string \<Rightarrow> string list" where
  "build_analyzer u doc = token_scan u [] (characters (lower_text u doc))"

text \<open>\<^verbatim>\<open>col.fillna('')\<close>: a missing value becomes the empty string.\<close>

fun fillna_cell :: "cell \<Rightarrow> cell" where
  "fillna_cell NaN = Str []"
| "fillna_cell NaT = Str []"
| "fillna_cell c = c"

definition fillna :: "cell list \<Rightarrow> cell list" where
  "fillna col = map fillna_cell col"

text \<open>
  The tokens of every document. A document that is not a string has no \<^verbatim>\<open>lower()\<close>:
  the vectorizer raises \<open>AttributeError\<close>.
\<close>

definition analyze_all :: "(string \<Rightarrow> string list) \<Rightarrow> cell list \<Rightarrow> error + string list list" where
  "analyze_all analyzer raw_documents =
     (if list_all (\<lambda>c. str_cell c \<noteq> None) raw_documents
      then Inr (map (\<lambda>c. analyzer (the (str_cell c))) raw_documents)
      else Inl AttributeError)"

text \<open>Occurrences of a term in the whole collection, and the documents it occurs in.\<close>

definition term_freq :: "string list list \<Rightarrow> string \<Rightarrow> nat" where
  "term_freq docs t = sum_list (map (\<lambda>d. count_list d t) docs)"

definition doc_freq :: "string list list \<Rightarrow> string \<Rightarrow> nat" where
  "doc_freq docs t = length (filter (\<lambda>d. t \<in> set d) docs)"

text \<open>
  \<^verbatim>\<open>_count_vocab\<close> followed by \<^verbatim>\<open>_sort_features\<close>: the distinct terms in
  alphabetical order; an empty vocabulary is a \<open>ValueError\<close>.
\<close>

definition count_vocab :: "string list list \<Rightarrow> error + string list" where
  "count_vocab docs =
     (let vocabulary = unique (concat docs) in
      if vocabulary = [] then Inl ValueError else Inr (sort vocabulary))"

text \<open>
  \<^verbatim>\<open>(-tfs).argsort()\<close>: the indices in the order of their keys. Among equal keys numpy
  leaves the order open; the model takes the stable one.
\<close>

definition argsort :: "int list \<Rightarrow> nat list" where
  "argsort keys = sort_key (\<lambda>i. keys ! i) [0..<length keys]"

text \<open>
  \<^verbatim>\<open>_limit_features\<close> with the default \<^verbatim>\<open>min_df\<close> and \<^verbatim>\<open>max_df\<close>, which exclude no
  term: when the vocabulary has more than \<open>limit\<close> terms, the \<open>limit\<close> first indices of
  \<^verbatim>\<open>(-tfs).argsort()\<close> are kept, \<open>tfs\<close> being the column sums of the count matrix. The
  kept terms stay in vocabulary order. No term left is a \<open>ValueError\<close>.
\<close>

definition limit_features :: "string list list \<Rightarrow> string list \<Rightarrow> nat \<Rightarrow> error + string list" where
  "limit_features docs vocabulary limit =
     (let kept =
        (if limit < length vocabulary then
           let tfs = map (term_freq docs) vocabulary;
               mask_inds = take limit (argsort (map (\<lambda>c. - int c) tfs))
           in map (\<lambda>i. vocabulary ! i) (filter (\<lambda>i. i \<in> set mask_inds) [0..<length vocabulary])
         else vocabulary)
      in if kept = [] then Inl ValueError else Inr kept)"

text \<open>
  \<^verbatim>\<open>TfidfTransformer\<close> with its defaults (\<^verbatim>\<open>smooth_idf\<close>, \<^verbatim>\<open>norm='l2'\<close>): the count of a
  term in a document times \<open>ln ((1 + n) / (1 + df)) + 1\<close>, each document's row divided by
  its Euclidean norm unless that is 0. The arithmetic is exact here; the library rounds
  to double precision.
\<close>

definition idf :: "string list list \<Rightarrow> string \<Rightarrow> real" where
  "idf docs t = ln ((1 + real (length docs)) / (1 + real (doc_freq docs t))) + 1"

definition weight :: "string list list \<Rightarrow> string list \<Rightarrow> string \<Rightarrow> real" where
  "weight docs d t = real (count_list d t) * idf docs t"

definition l2_norm :: "string list list \<Rightarrow> string list \<Rightarrow> string list \<Rightarrow> real" where
  "l2_norm docs vocabulary d = sqrt (sum_list (map (\<lambda>t. (weight docs d t)\<^sup>2) vocabulary))"

definition tfidf :: "string list list \<Rightarrow> string list \<Rightarrow> string list \<Rightarrow> string \<Rightarrow> real" where
  "tfidf docs vocabulary d t =
     (let n = l2_norm docs vocabulary d in
      if n = 0 then weight docs d t else weight docs d t / n)"

text \<open>\<^verbatim>\<open>tfidf_mat.sum(axis=0)\<close>: the score of a term is the sum of its column.\<close>

definition score :: "string list list \<Rightarrow> string list \<Rightarrow> string \<Rightarrow> real" where
  "score docs vocabulary t = sum_list (map (\<lambda>d. tfidf docs vocabulary d t) docs)"

text \<open>
  The three lines inside each \<^verbatim>\<open>try\<close>: fit the vectorizer and pair
  \<^verbatim>\<open>get_feature_names_out()\<close> with the column sums.
\<close>

definition ranking_of :: "(string \<Rightarrow> string list) \<Rightarrow> nat \<Rightarrow> cell list \<Rightarrow> error + (string \<times> real) list" where
  "ranking_of analyzer max_features raw_documents =
     and_then (analyze_all analyzer raw_documents) (\<lambda>docs.
     and_then (count_vocab docs) (\<lambda>vocabulary.
     and_then (limit_features docs vocabulary max_features) (\<lambda>kept.
       Inr (map (\<lambda>t. (t, score docs kept t)) kept))))"

section \<open>The four sections\<close>

text \<open>
  What a section puts on the page. The notices are the messages of the source:
  \<open>Select_keywords\<close> is the \<^verbatim>\<open>st.info\<close> of line 109, \<open>No_data\<close> that of lines 140 and
  165, \<open>No_news\<close> that of line 187, and \<open>Not_enough_text\<close> the \<^verbatim>\<open>st.write\<close> of lines
  134 and 182. A chart carries its key and its data, a table the frame shown, the column
  it is sorted by and the number of rows shown.
\<close>

datatype notice = Select_keywords | No_data | No_news | Not_enough_text

datatype widget =
    Info notice
  | Write notice
  | Chart string dataframe
  | Counts_chart string "(cell \<times> nat) list"
  | Ranking_chart string "(string \<times> real) list"
  | Table dataframe string nat

text \<open>
  \<^verbatim>\<open>col.value_counts()\<close>: the values that are not missing with their numbers of rows,
  most frequent first (the order among equal counts is the stable one here).
\<close>

fun isnull :: "cell \<Rightarrow> bool" where
  "isnull NaN = True"
| "isnull NaT = True"
| "isnull _ = False"

definition value_counts :: "cell list \<Rightarrow> (cell \<times> nat) list" where
  "value_counts col =
     sort_key (\<lambda>p. - int (snd p))
       (map (\<lambda>v. (v, count_list col v)) (unique (filter (\<lambda>c. \<not> isnull c) col)))"

text \<open>A plotly express call raises \<open>ValueError\<close> for a column name the frame lacks.\<close>

definition px_columns :: "dataframe \<Rightarrow> string list \<Rightarrow> error + unit" where
  "px_columns df cs = (if list_all (\<lambda>c. c \<in> set (columns df)) cs then Inr () else Inl ValueError)"

text \<open>\<^verbatim>\<open>df[[c1, ..., cn]]\<close> raises \<open>KeyError\<close> for the first label that is missing.\<close>

definition getitem_list :: "dataframe \<Rightarrow> string list \<Rightarrow> error + dataframe" where
  "getitem_list df cs =
     (case filter (\<lambda>c. c \<notin> set (columns df)) cs of
        [] \<Rightarrow> Inr \<lparr>columns = cs, rows = map (\<lambda>r. r |` set cs) (rows df)\<rparr>
      | c # _ \<Rightarrow> Inl (KeyError c))"

text \<open>
  The \<^verbatim>\<open>try\<close> blocks of lines 126 to 134 and 174 to 182: the bare \<^verbatim>\<open>except\<close> catches
  every exception and writes the notice in place of the chart.
\<close>

definition tfidf_block ::
  "(string \<Rightarrow> string list) \<Rightarrow> nat \<Rightarrow> dataframe \<Rightarrow> string \<Rightarrow> string \<Rightarrow> widget" where
  "tfidf_block analyzer max_features df col key =
     (case and_then (getitem df col) (\<lambda>c. ranking_of analyzer max_features (fillna c)) of
        Inl e \<Rightarrow> Write Not_enough_text
      | Inr ranking \<Rightarrow> Ranking_chart key ranking)"

text \<open>
  \<^verbatim>\<open>df.groupby(keys)[c].agg(['mean', ...])\<close>: the mean of a column that holds anything
  but numbers and missing values raises \<open>TypeError\<close>.
\<close>

fun numeric :: "cell \<Rightarrow> bool" where
  "numeric (Num x) = True"
| "numeric NaN = True"
| "numeric _ = False"

definition agg_numeric :: "dataframe \<Rightarrow> string \<Rightarrow> error + unit" where
  "agg_numeric df c =
     and_then (getitem df c) (\<lambda>col. if list_all numeric col then Inr () else Inl TypeError)"

definition tab1 :: "dataframe \<Rightarrow> error + widget list" where
  "tab1 f_trend =
     (if \<not> df_empty f_trend then
        and_then (px_columns f_trend [''period'', ''ratio'', ''target_keyword'']) (\<lambda>_.
        and_then (getitem f_trend ''target_keyword'') (\<lambda>_.
        and_then (agg_numeric f_trend ''ratio'') (\<lambda>_.
          Inr [Chart ''fig1_trend'' f_trend, Table f_trend ''target_keyword'' (length (rows f_trend))])))
      else Inr [Info Select_keywords])"

definition tab2 :: "(string \<Rightarrow> string list) \<Rightarrow> dataframe \<Rightarrow> error + widget list" where
  "tab2 analyzer f_blog =
     (if \<not> df_empty f_blog then
        and_then (getitem f_blog ''bloggername'') (\<lambda>names.
          let blogger_top = take 20 (value_counts names);
              fig3 = tfidf_block analyzer 30 f_blog ''description'' ''fig3_tfidf''
          in and_then (getitem_list f_blog [''postdate'', ''bloggername'', ''title'', ''target_keyword''])
               (\<lambda>shown. Inr [Counts_chart ''fig2_blog'' blogger_top, fig3, Table shown ''postdate'' 20]))
      else Inr [Info No_data])"

text \<open>Lines 154 and 155: the ten most frequent brands, and the rows that have one of them.\<close>

definition top_brands :: "dataframe \<Rightarrow> error + cell list" where
  "top_brands f_shop =
     and_then (getitem f_shop ''brand'') (\<lambda>brand. Inr (map fst (take 10 (value_counts brand))))"

definition f_brand :: "dataframe \<Rightarrow> error + dataframe" where
  "f_brand f_shop =
     and_then (top_brands f_shop) (\<lambda>top.
     and_then (getitem f_shop ''brand'') (\<lambda>brand.
       Inr (getitem_mask f_shop (map (\<lambda>c. c \<in> set top) brand))))"

definition tab3 :: "dataframe \<Rightarrow> error + widget list" where
  "tab3 f_shop =
     (if \<not> df_empty f_shop then
        and_then (px_columns f_shop [''lprice'', ''target_keyword'']) (\<lambda>_.
        and_then (f_brand f_shop) (\<lambda>fb.
        and_then (px_columns fb [''brand'', ''lprice'', ''target_keyword'']) (\<lambda>_.
        and_then (getitem_list f_shop [''brand'', ''target_keyword'']) (\<lambda>_.
        and_then (agg_numeric f_shop ''lprice'') (\<lambda>_.
          Inr [Chart ''fig4_shop'' f_shop, Chart ''fig5_shop_box'' fb, Table f_shop ''count'' 50])))))
      else Inr [Info No_data])"

definition tab4 :: "(string \<Rightarrow> string list) \<Rightarrow> dataframe \<Rightarrow> error + widget list" where
  "tab4 analyzer f_news =
     (if \<not> df_empty f_news then
        let fig6 = tfidf_block analyzer 25 f_news ''title'' ''fig6_news'' in
        and_then (getitem_list f_news [''target_keyword'', ''title'', ''pubDate''])
          (\<lambda>shown. Inr [fig6, Table shown ''pubDate'' 30])
      else Inr [Info No_news])"

text \<open>
  One run of the script: load, read the sidebar, filter, then the four sections in
  order. \<open>Inl\<close> is an exception that no \<^verbatim>\<open>try\<close> catches: the run stops there.
\<close>

definition render :: "(string \<Rightarrow> string list) \<Rightarrow> tables \<Rightarrow> error + widget list list" where
  "render analyzer f =
     and_then (tab1 (trend_df f)) (\<lambda>w1.
     and_then (tab2 analyzer (blog_df f)) (\<lambda>w2.
     and_then (tab3 (shop_df f)) (\<lambda>w3.
     and_then (tab4 analyzer (news_df f)) (\<lambda>w4.
       Inr [w1, w2, w3, w4]))))"

definition run ::
  "parser \<Rightarrow> (string \<Rightarrow> string list) \<Rightarrow> (string \<times> (error + dataframe)) list \<Rightarrow> ui \<Rightarrow> error + widget list list" where
  "run parse analyzer files u =
     and_then (filtered_tables u (load_and_preprocess_data parse files)) (render analyzer)"

section \<open>Scenarios and auxiliary notions\<close>

text \<open>The number of frames in the four lists of the loader.\<close>

definition lists_length :: "load_state \<Rightarrow> nat" where
  "lists_length st =
     length (blog_list st) + length (shop_list st) + length (trend_list st) + length (news_list st)"

text \<open>
  A data directory with one trend file and nothing else: one row, with the columns
  \<^verbatim>\<open>period\<close> and \<^verbatim>\<open>ratio\<close>. The widgets are left at their defaults: the only keyword,
  and the range from the first to the last period.
\<close>

definition trend_only :: "(string \<times> (error + dataframe)) list" where
  "trend_only =
     [(''shopping_trend_foo_20240101.csv'',
       Inr \<lparr>columns = [''period'', ''ratio''],
            rows = [[''period'' \<mapsto> Str ''2024-01-01'', ''ratio'' \<mapsto> Num 1]]\<rparr>)]"

definition trend_only_ui :: ui where
  "trend_only_ui = \<lparr>keyword_picks = [''foo''], date_picks = [Date 2024 1 1, Date 2024 1 1]\<rparr>"

text \<open>
  The row predicates that the two filter expressions compute: the keyword cell is one
  of the selected strings, and the date of the cell in \<open>datecol\<close> lies between the two
  dates, both included.
\<close>

definition keyword_selected :: "string list \<Rightarrow> row \<Rightarrow> bool" where
  "keyword_selected selected r =
     (case str_cell (cell_of r ''target_keyword'') of None \<Rightarrow> False | Some k \<Rightarrow> k \<in> set selected)"

definition date_between :: "string \<Rightarrow> date \<Rightarrow> date \<Rightarrow> row \<Rightarrow> bool" where
  "date_between datecol start_date end_date r =
     (case date_part (cell_of r datecol) of
        None \<Rightarrow> False
      | Some x \<Rightarrow> date_le start_date x \<and> date_le x end_date)"

text \<open>
  A parser to put in place of the parameter \<open>parse\<close> in the scenarios. It reads a number
  written \<^verbatim>\<open>YYYYMMDD\<close> and a string written \<^verbatim>\<open>YYYY-MM-DD\<close>, as midnight of that day.
\<close>

definition digit :: "char \<Rightarrow> nat option" where
  "digit c = (let n = (of_char c :: nat) in if 48 \<le> n \<and> n \<le> 57 then Some (n - 48) else None)"

fun iso_date :: "string \<Rightarrow> date option" where
  "iso_date [y1, y2, y3, y4, s1, m1, m2, s2, d1, d2] =
     (case (digit y1, digit y2, digit y3, digit y4, digit m1, digit m2, digit d1, digit d2) of
        (Some a, Some b, Some c, Some d, Some e, Some f, Some g, Some h) \<Rightarrow>
          if s1 = CHR ''-'' \<and> s2 = CHR ''-''
          then Some (Date (1000 * a + 100 * b + 10 * c + d) (10 * e + f) (10 * g + h))
          else None
      | _ \<Rightarrow> None)"
| "iso_date _ = None"

definition scenario_parser :: parser where
  "scenario_parser fmt c =
     (case c of
        Num x \<Rightarrow>
          (let n = nat \<lfloor>x\<rfloor> in Some (Date (n div 10000) (n div 100 mod 100) (n mod 100), 0))
      | Str s \<Rightarrow> (case iso_date s of None \<Rightarrow> None | Some d \<Rightarrow> Some (d, 0))
      | _ \<Rightarrow> None)"

text \<open>
  The two blog files of the scenario: ten rows with the post dates 1 to 10 January 2024,
  and five rows with 1 to 5 February 2024, written as \<^verbatim>\<open>read_csv\<close> returns them.
\<close>

definition blog_row :: "nat \<Rightarrow> row" where
  "blog_row n =
     [''postdate'' \<mapsto> Num (real n), ''bloggername'' \<mapsto> Str ''b'', ''title'' \<mapsto> Str ''t'',
      ''description'' \<mapsto> Str ''new sunglasses'']"

definition blog_csv :: "nat list \<Rightarrow> error + dataframe" where
  "blog_csv ns =
     Inr \<lparr>columns = [''postdate'', ''bloggername'', ''title'', ''description''],
          rows = map blog_row ns\<rparr>"

definition january_file :: "string \<times> (error + dataframe)" where
  "january_file =
     (''blog_sunglasses_20240101.csv'',
      blog_csv [20240101, 20240102, 20240103, 20240104, 20240105,
                20240106, 20240107, 20240108, 20240109, 20240110])"

definition february_file :: "string \<times> (error + dataframe)" where
  "february_file =
     (''blog_sunglasses_20240201.csv'',
      blog_csv [20240201, 20240202, 20240203, 20240204, 20240205])"

definition two_blog_files :: "(string \<times> (error + dataframe)) list" where
  "two_blog_files = [january_file, february_file]"

text \<open>What the date parser has to read in the scenario: the fifteen post dates.\<close>

definition scenario_dates :: "(nat \<times> date) list" where
  "scenario_dates =
     [(20240101, Date 2024 1 1), (20240102, Date 2024 1 2), (20240103, Date 2024 1 3),
      (20240104, Date 2024 1 4), (20240105, Date 2024 1 5), (20240106, Date 2024 1 6),
      (20240107, Date 2024 1 7), (20240108, Date 2024 1 8), (20240109, Date 2024 1 9),
      (20240110, Date 2024 1 10), (20240201, Date 2024 2 1), (20240202, Date 2024 2 2),
      (20240203, Date 2024 2 3), (20240204, Date 2024 2 4), (20240205, Date 2024 2 5)]"

definition reads_scenario_dates :: "parser \<Rightarrow> bool" where
  "reads_scenario_dates parse =
     list_all (\<lambda>p. parse (Some ''%Y%m%d'') (Num (real (fst p))) = Some (snd p, 0)) scenario_dates"

text \<open>
  Files of the other three categories, and the directory that holds them together with
  the two blog files. The user selects \<^verbatim>\<open>sunglasses\<close> and the range 1 to 10 January.
\<close>

definition other_files :: "(string \<times> (error + dataframe)) list" where
  "other_files =
     [(''shopping_trend_sunglasses_20240101.csv'',
       Inr \<lparr>columns = [''period'', ''ratio''],
            rows = [[''period'' \<mapsto> Str ''2024-01-01'', ''ratio'' \<mapsto> Num 40],
                    [''period'' \<mapsto> Str ''2024-01-10'', ''ratio'' \<mapsto> Num 55],
                    [''period'' \<mapsto> Str ''2024-02-05'', ''ratio'' \<mapsto> Num 70]]\<rparr>),
      (''shopping_trend_goggles_20240101.csv'',
       Inr \<lparr>columns = [''period'', ''ratio''],
            rows = [[''period'' \<mapsto> Str ''2024-01-05'', ''ratio'' \<mapsto> Num 12]]\<rparr>),
      (''shop_sunglasses_20240101.csv'',
       Inr \<lparr>columns = [''lprice'', ''brand''],
            rows = [[''lprice'' \<mapsto> Num 15000, ''brand'' \<mapsto> Str ''A'']]\<rparr>),
      (''news_sunglasses_20240101.csv'',
       Inr \<lparr>columns = [''title'', ''pubDate''],
            rows = [[''title'' \<mapsto> Str ''summer sunglasses'', ''pubDate'' \<mapsto> Str ''2024-01-03'']]\<rparr>)]"

definition full_files :: "(string \<times> (error + dataframe)) list" where
  "full_files = two_blog_files @ other_files"

definition january_ui :: ui where
  "january_ui = \<lparr>keyword_picks = [''sunglasses''], date_picks = [Date 2024 1 1, Date 2024 1 10]\<rparr>"

text \<open>
  \<^verbatim>\<open>get_feature_names_out()\<close> of the fitted vectorizer: the terms of the ranking.
\<close>

definition feature_names :: "(string \<Rightarrow> string list) \<Rightarrow> nat \<Rightarrow> cell list \<Rightarrow> error + string list" where
  "feature_names analyzer max_features raw_documents =
     and_then (ranking_of analyzer max_features raw_documents) (\<lambda>ranking. Inr (map fst ranking))"

text \<open>
  A blank document: a missing value, or a text in which every character is white
  space (\<^verbatim>\<open>str.isspace\<close>); the empty text is one.
\<close>

definition whitespace_only :: "string \<Rightarrow> bool" where
  "whitespace_only s = list_all (\<lambda>ch. is_space (code_point ch)) (characters s)"

fun blank :: "cell \<Rightarrow> bool" where
  "blank NaN = True"
| "blank NaT = True"
| "blank (Str s) = whitespace_only s"
| "blank _ = False"

text \<open>
  Tables to put in place of the parameter in the scenarios, whose text is ASCII,
  Hangul and white space: the Hangul syllables \<open>U+AC00\<close> to \<open>U+D7A3\<close> are the word
  characters above 127, and as they have no case, lower-casing changes the ASCII
  letters only.
\<close>

definition hangul :: unicode where
  "hangul = \<lparr>uni_word = (\<lambda>n. 44032 \<le> n \<and> n \<le> 55203), uni_lower = map lower_char\<rparr>"

text \<open>
  The encodings of two Hangul syllables (\<open>U+D55C\<close>, \<open>U+AE00\<close>) and of the horizontal
  ellipsis (\<open>U+2026\<close>), for examples of the analyzer.
\<close>

definition syllable_han :: string where
  "syllable_han = map char_of [237, 149, 156 :: nat]"

definition syllable_geul :: string where
  "syllable_geul = map char_of [234, 184, 128 :: nat]"

definition horizontal_ellipsis :: string where
  "horizontal_ellipsis = map char_of [226, 128, 166 :: nat]"

text \<open>The distinct brand values of a column: its values that are not missing.\<close>

definition brand_values :: "cell list \<Rightarrow> cell list" where
  "brand_values col = unique (filter (\<lambda>c. \<not> isnull c) col)"

text \<open>
  Two news titles. The first has \<^verbatim>\<open>aa\<close> once and each of the 25 words \<^verbatim>\<open>ab\<close> to
  \<^verbatim>\<open>az\<close> three times; the second is \<^verbatim>\<open>aa\<close>. So \<^verbatim>\<open>aa\<close> is the only word in both
  documents, and the word with the fewest occurrences.
\<close>

definition common_word_docs :: "cell list" where
  "common_word_docs =
     [Str (''aa ab ab ab ac ac ac ad ad ad ae ae ae af af af ag ag ag ah '' @
          ''ah ah ai ai ai aj aj aj ak ak ak al al al am am am an an an '' @
          ''ao ao ao ap ap ap aq aq aq ar ar ar as as as at at at au au '' @
          ''au av av av aw aw aw ax ax ax ay ay ay az az az''),
      Str ''aa'']"

definition other_words :: "string list" where
  "other_words =
     [''ab'', ''ac'', ''ad'', ''ae'', ''af'', ''ag'', ''ah'', ''ai'', ''aj'',
      ''ak'', ''al'', ''am'', ''an'', ''ao'', ''ap'', ''aq'', ''ar'', ''as'',
      ''at'', ''au'', ''av'', ''aw'', ''ax'', ''ay'', ''az'']"

text \<open>The tokens of the two titles.\<close>

definition common_word_tokens :: "string list list" where
  "common_word_tokens = [''aa'' # concat (map (\<lambda>t. [t, t, t]) other_words), [''aa'']]"

text \<open>
  Small tables for the sections: two blog posts, and five posts without text, among
  them one of a no-break space (\<open>U+00A0\<close>) and one of an ideographic space (\<open>U+3000\<close>)
  and a space.
\<close>

definition blog_post :: "cell \<Rightarrow> row" where
  "blog_post description =
     [''postdate'' \<mapsto> Stamp (Date 2024 1 1) 0, ''bloggername'' \<mapsto> Str ''b'',
      ''title'' \<mapsto> Str ''t'', ''description'' \<mapsto> description,
      ''target_keyword'' \<mapsto> Str ''sunglasses'']"

definition blog_table :: "cell list \<Rightarrow> dataframe" where
  "blog_table descriptions =
     \<lparr>columns = [''postdate'', ''bloggername'', ''title'', ''description'', ''target_keyword''],
      rows = map blog_post descriptions\<rparr>"

definition two_posts :: dataframe where
  "two_posts = blog_table [Str ''red sunglasses'', Str ''blue sunglasses'']"

definition no_break_space :: string where
  "no_break_space = [char_of (194 :: nat), char_of (160 :: nat)]"

definition ideographic_space :: string where
  "ideographic_space = [char_of (227 :: nat), char_of (128 :: nat), char_of (128 :: nat)]"

definition blank_descriptions :: "cell list" where
  "blank_descriptions =
     [NaN, Str ''  '', Str [], Str no_break_space, Str (ideographic_space @ '' '')]"

definition blank_posts :: dataframe where
  "blank_posts = blog_table blank_descriptions"

text \<open>
  A shop table with eleven brands: \<^verbatim>\<open>A\<close> in 12 rows, \<^verbatim>\<open>B\<close> in 8, \<^verbatim>\<open>C\<close> in 3, and
  \<^verbatim>\<open>D\<close> to \<^verbatim>\<open>K\<close> in 11, 10, 9, 7, 6, 5, 4 and 2 rows.
\<close>

definition shop_row :: "string \<Rightarrow> row" where
  "shop_row b = [''lprice'' \<mapsto> Num 15000, ''brand'' \<mapsto> Str b, ''target_keyword'' \<mapsto> Str ''sunglasses'']"

definition eleven_brands :: dataframe where
  "eleven_brands =
     \<lparr>columns = [''lprice'', ''brand'', ''target_keyword''],
      rows = concat (map (\<lambda>p. replicate (snd p) (shop_row (fst p)))
               [(''A'', 12), (''B'', 8), (''C'', 3), (''D'', 11), (''E'', 10), (''F'', 9),
                (''G'', 7), (''H'', 6), (''I'', 5), (''J'', 4), (''K'', 2)])\<rparr>"

text \<open>The \<^verbatim>\<open>brand\<close> column of that table.\<close>

definition eleven_column :: "cell list" where
  "eleven_column =
     concat (map (\<lambda>p. replicate (snd p) (Str (fst p)))
               [(''A'', 12), (''B'', 8), (''C'', 3), (''D'', 11), (''E'', 10), (''F'', 9),
                (''G'', 7), (''H'', 6), (''I'', 5), (''J'', 4), (''K'', 2)])"

section \<open>Properties of the classification\<close>

lemma contains_append: "contains (p @ q) s \<Longrightarrow> contains p s"
proof (induction s)
  case Nil
  then show ?case by simp
next
  case (Cons c cs)
  have "startswith (p @ q) (c # cs) \<Longrightarrow> startswith p (c # cs)"
    unfolding startswith_def
    by (metis append.assoc append_eq_conv_conj append_take_drop_id)
  with Cons show ?case by auto
qed

lemma dispatch_shopping_trend:
  assumes "contains ''shopping_trend_'' f"
  shows "dispatch f = Some Blog \<or> dispatch f = Some Trend"
  using contains_append[of "''shopping_trend''" "''_''" f] assms by (simp add: dispatch_def)

lemma load_file_one_list: "lists_length (load_file parse fl st) \<le> Suc (lists_length st)"
  by (auto simp: load_file_def lists_length_def report_def Let_def
      split: option.splits sum.splits category.splits)

lemma load_file_shop_unchanged:
  assumes "contains ''shopping_trend_'' (fst fl)"
  shows "shop_list (load_file parse fl st) = shop_list st"
  using dispatch_shopping_trend[OF assms]
  by (auto simp: load_file_def report_def Let_def split: option.splits sum.splits category.splits)

text \<open>
  C5. Classification is a function of the file name, and one iteration of the loader
  adds a frame to at most one of the four lists. \<^verbatim>\<open>shopping_trend_foo_20240101.csv\<close> is
  a trend file with keyword \<^verbatim>\<open>foo\<close>. No file name that contains \<^verbatim>\<open>shopping_trend_\<close>
  is classified as a shop file, and loading such a file leaves the shop list as it was,
  also when the name contains \<^verbatim>\<open>shop_\<close> as well.
\<close>

theorem shopping_trend_before_shop:
  "classify ''shopping_trend_foo_20240101.csv'' = Some (Trend, ''foo'')
   \<and> (\<forall>f. contains ''shopping_trend_'' f \<longrightarrow>
         (\<forall>k. classify f \<noteq> Some (Shop, k))
         \<and> (\<forall>parse csv st. shop_list (load_file parse (f, csv) st) = shop_list st))
   \<and> (\<forall>parse fl st. lists_length (load_file parse fl st) \<le> Suc (lists_length st))"
proof (intro conjI allI impI)
  show "classify ''shopping_trend_foo_20240101.csv'' = Some (Trend, ''foo'')"
    by (simp add: classify_def extract_keyword_def dispatch_def startswith_def replace_del_def
        rsplit1_head_def)
next
  fix f k assume "contains ''shopping_trend_'' f"
  from dispatch_shopping_trend[OF this] show "classify f \<noteq> Some (Shop, k)"
    by (auto simp: classify_def split: option.splits)
next
  fix f parse csv st assume "contains ''shopping_trend_'' f"
  then show "shop_list (load_file parse (f, csv) st) = shop_list st"
    using load_file_shop_unchanged[of "(f, csv)"] by simp
next
  fix parse fl st
  show "lists_length (load_file parse fl st) \<le> Suc (lists_length st)"
    by (rule load_file_one_list)
qed

theorem shopping_trend_before_shop_witness:
  "contains ''shopping_trend_'' ''shopping_trend_shop_x_20240101.csv''
   \<and> contains ''shop_'' ''shopping_trend_shop_x_20240101.csv''
   \<and> classify ''shopping_trend_shop_x_20240101.csv'' = Some (Trend, ''shop_x'')
   \<and> classify ''shopping_trend_shop_x_20240101.csv'' \<noteq> Some (Shop, ''shop_x'')"
proof -
  have h: "contains ''shopping_trend_'' ''shopping_trend_shop_x_20240101.csv''"
    by (simp add: startswith_def)
  have c: "classify ''shopping_trend_shop_x_20240101.csv'' = Some (Trend, ''shop_x'')"
    by (simp add: classify_def extract_keyword_def dispatch_def startswith_def replace_del_def
        rsplit1_head_def)
  have s: "contains ''shop_'' ''shopping_trend_shop_x_20240101.csv''"
    by (simp add: startswith_def)
  from shopping_trend_before_shop h
  have "classify ''shopping_trend_shop_x_20240101.csv'' \<noteq> Some (Shop, ''shop_x'')" by blast
  with h c s show ?thesis by simp
qed

section \<open>Properties of the sidebar and the filter\<close>

lemmas load_defs = load_and_preprocess_data_def load_loop_def load_init_def load_file_def
  extract_keyword_def dispatch_def startswith_def replace_del_def rsplit1_head_def setitem_def
  to_datetime_column_def concat_or_empty_def concat_frames_def DataFrame_def report_def

lemmas scenario_defs = two_blog_files_def january_file_def february_file_def blog_csv_def
  other_files_def full_files_def blog_row_def january_ui_def

lemmas filter_defs = filtered_tables_def sidebar_def all_keywords_def df_empty_def getitem_def
  and_then_def cell_of_def multiselect_def filter_block_def keyword_date_filter_def
  keyword_filter_def dt_date_def coerce_def isin_def ge_date_def le_date_def mask_and_def
  getitem_mask_def

lemma filtered_tables_empty_trend:
  assumes "df_empty (trend_df t)"
  shows "sidebar u (trend_df t) = Inr ([], []) \<and> filtered_tables u t = Inr t"
  using assms
  by (simp add: all_keywords_def sidebar_def and_then_def multiselect_def filter_block_def
      filtered_tables_def)

subsection \<open>What the filter expressions keep\<close>

lemma date_le_refl: "date_le d d"
  by (cases d) simp

lemma mask_rows: "map fst (filter snd (zip xs (map P xs))) = filter P xs"
  by (induction xs) auto

lemma getitem_mask_map: "getitem_mask df (map P (rows df)) = df\<lparr>rows := filter P (rows df)\<rparr>"
  by (simp add: getitem_mask_def mask_rows)

lemma mask_and_map: "mask_and (map P xs) (map Q xs) = map (\<lambda>x. P x \<and> Q x) xs"
  by (induction xs) (auto simp: mask_and_def)

lemma ge_date_map:
  "ge_date (map h xs) s = map (\<lambda>x. case h x of None \<Rightarrow> False | Some y \<Rightarrow> date_le s y) xs"
  by (simp add: ge_date_def)

lemma le_date_map:
  "le_date (map h xs) e = map (\<lambda>x. case h x of None \<Rightarrow> False | Some y \<Rightarrow> date_le y e) xs"
  by (simp add: le_date_def)

lemma isin_map:
  "isin (map (\<lambda>r. cell_of r ''target_keyword'') xs) selected = map (keyword_selected selected) xs"
  by (simp add: isin_def keyword_selected_def)

lemma keyword_filter_Inr:
  assumes "keyword_filter df selected = Inr f"
  shows "f = df\<lparr>rows := filter (keyword_selected selected) (rows df)\<rparr>"
proof -
  from assms have "f = getitem_mask df
      (isin (map (\<lambda>r. cell_of r ''target_keyword'') (rows df)) selected)"
    by (auto simp: keyword_filter_def and_then_def getitem_def split: if_splits)
  then show ?thesis
    by (simp only: isin_map getitem_mask_map)
qed

lemma keyword_date_filter_Inr:
  assumes "keyword_date_filter df datecol selected start_date end_date = Inr f"
  shows "f = df\<lparr>rows := filter (\<lambda>r. keyword_selected selected r
                                   \<and> date_between datecol start_date end_date r) (rows df)\<rparr>"
proof -
  have eq: "(\<lambda>r. (keyword_selected selected r
             \<and> (case date_part (cell_of r datecol) of None \<Rightarrow> False | Some x \<Rightarrow> date_le start_date x))
             \<and> (case date_part (cell_of r datecol) of None \<Rightarrow> False | Some x \<Rightarrow> date_le x end_date))
          = (\<lambda>r. keyword_selected selected r \<and> date_between datecol start_date end_date r)"
    by (auto simp: date_between_def fun_eq_iff split: option.splits)
  from assms have "f = getitem_mask df
      (mask_and (mask_and (isin (map (\<lambda>r. cell_of r ''target_keyword'') (rows df)) selected)
                   (ge_date (map (\<lambda>r. date_part (cell_of r datecol)) (rows df)) start_date))
                (le_date (map (\<lambda>r. date_part (cell_of r datecol)) (rows df)) end_date))"
    by (auto simp: keyword_date_filter_def and_then_def getitem_def dt_date_def comp_def
        split: if_splits)
  then show ?thesis
    by (simp only: isin_map ge_date_map le_date_map mask_and_map getitem_mask_map eq)
qed

lemma filter_block_range:
  assumes "filter_block selected [start_date, end_date] t = Inr f"
  shows "trend_df f = (trend_df t)\<lparr>rows := filter (\<lambda>r. keyword_selected selected r
                    \<and> date_between ''period'' start_date end_date r) (rows (trend_df t))\<rparr>
    \<and> blog_df f = (blog_df t)\<lparr>rows := filter (\<lambda>r. keyword_selected selected r
                    \<and> date_between ''postdate'' start_date end_date r) (rows (blog_df t))\<rparr>
    \<and> news_df f = (news_df t)\<lparr>rows := filter (keyword_selected selected) (rows (news_df t))\<rparr>
    \<and> shop_df f = (shop_df t)\<lparr>rows := filter (keyword_selected selected) (rows (shop_df t))\<rparr>"
proof -
  from assms obtain f1 f2 f3 f4 where
    f1: "keyword_date_filter (trend_df t) ''period'' selected start_date end_date = Inr f1" and
    f2: "keyword_date_filter (blog_df t) ''postdate'' selected start_date end_date = Inr f2" and
    f3: "keyword_filter (news_df t) selected = Inr f3" and
    f4: "keyword_filter (shop_df t) selected = Inr f4" and
    f: "f = \<lparr>blog_df = f2, shop_df = f4, trend_df = f1, news_df = f3\<rparr>"
    by (auto simp: filter_block_def and_then_def Let_def split: sum.splits)
  show ?thesis
    using keyword_date_filter_Inr[OF f1] keyword_date_filter_Inr[OF f2]
      keyword_filter_Inr[OF f3] keyword_filter_Inr[OF f4] f
    by simp
qed

lemma not_selected:
  assumes "cell_of r ''target_keyword'' \<notin> Str ` set selected"
  shows "\<not> keyword_selected selected r"
  using assms by (cases "cell_of r ''target_keyword''") (auto simp: keyword_selected_def)

subsection \<open>The scenarios, evaluated\<close>

lemma scenario_parser_reads: "reads_scenario_dates scenario_parser"
  by (simp add: reads_scenario_dates_def scenario_dates_def scenario_parser_def)

lemma two_blog_trend: "trend_df (load_and_preprocess_data parse two_blog_files) = DataFrame"
  by (simp add: scenario_defs load_defs Let_def)

lemma two_blog_trend_empty: "df_empty (trend_df (load_and_preprocess_data parse two_blog_files))"
  by (simp add: two_blog_trend df_empty_def DataFrame_def)

lemma two_blog_rows:
  "rows (blog_df (load_and_preprocess_data parse two_blog_files))
   = rows (blog_df (load_and_preprocess_data parse [january_file]))
     @ rows (blog_df (load_and_preprocess_data parse [february_file]))"
  by (simp add: scenario_defs load_defs Let_def)

lemma january_length: "length (rows (blog_df (load_and_preprocess_data parse [january_file]))) = 10"
  by (simp add: scenario_defs load_defs Let_def)

lemma february_length: "length (rows (blog_df (load_and_preprocess_data parse [february_file]))) = 5"
  by (simp add: scenario_defs load_defs Let_def)

lemma two_blog_keyword:
  "list_all (\<lambda>r. cell_of r ''target_keyword'' = Str ''sunglasses'')
     (rows (blog_df (load_and_preprocess_data parse two_blog_files)))"
  by (simp add: scenario_defs load_defs Let_def cell_of_def)

lemma january_kept:
  assumes "reads_scenario_dates parse"
  shows "filter (\<lambda>r. keyword_selected [''sunglasses''] r
                   \<and> date_between ''postdate'' (Date 2024 1 1) (Date 2024 1 10) r)
           (rows (blog_df (load_and_preprocess_data parse [january_file])))
         = rows (blog_df (load_and_preprocess_data parse [january_file]))"
  using assms
  by (simp add: reads_scenario_dates_def scenario_dates_def scenario_defs load_defs
      Let_def cell_of_def keyword_selected_def date_between_def coerce_def)

lemma february_dropped:
  assumes "reads_scenario_dates parse"
  shows "filter (\<lambda>r. keyword_selected [''sunglasses''] r
                   \<and> date_between ''postdate'' (Date 2024 1 1) (Date 2024 1 10) r)
           (rows (blog_df (load_and_preprocess_data parse [february_file])))
         = []"
  using assms
  by (simp add: reads_scenario_dates_def scenario_dates_def scenario_defs load_defs
      Let_def cell_of_def keyword_selected_def date_between_def coerce_def)

lemma full_blog:
  "blog_df (load_and_preprocess_data parse full_files)
   = blog_df (load_and_preprocess_data parse two_blog_files)"
  by (simp add: scenario_defs load_defs Let_def)

lemma full_sidebar:
  "sidebar january_ui (trend_df (load_and_preprocess_data scenario_parser full_files))
   = Inr ([''sunglasses''], [Date 2024 1 1, Date 2024 1 10])"
  by (simp add: scenario_defs load_defs Let_def sidebar_def all_keywords_def df_empty_def
      getitem_def and_then_def cell_of_def multiselect_def coerce_def scenario_parser_def
      digit_def)

lemma full_filter_succeeds:
  "\<exists>f. filter_block [''sunglasses''] [Date 2024 1 1, Date 2024 1 10]
          (load_and_preprocess_data scenario_parser full_files) = Inr f"
  by (simp add: scenario_defs load_defs Let_def filter_defs scenario_parser_def digit_def)

lemma full_trend_cells:
  "map (\<lambda>r. (cell_of r ''target_keyword'', cell_of r ''period''))
     (rows (trend_df (load_and_preprocess_data scenario_parser full_files)))
   = [(Str ''sunglasses'', Stamp (Date 2024 1 1) 0), (Str ''sunglasses'', Stamp (Date 2024 1 10) 0),
      (Str ''sunglasses'', Stamp (Date 2024 2 5) 0), (Str ''goggles'', Stamp (Date 2024 1 5) 0)]"
  by (simp add: scenario_defs load_defs Let_def cell_of_def coerce_def scenario_parser_def
      digit_def)

lemma full_trend_length:
  "length (rows (trend_df (load_and_preprocess_data scenario_parser full_files))) = 4"
  using arg_cong[OF full_trend_cells, of length] by simp

subsection \<open>The claims about the sidebar and the filter\<close>

text \<open>
  C10. With an empty trend table the option list of the keyword widget is empty, so the
  selection is empty whatever the user picks, the date range is the empty list, and the
  filter hands all four tables on as they are.
\<close>

theorem empty_trend_no_filter:
  assumes "df_empty (trend_df t)"
  shows "all_keywords (trend_df t) = Inr []
         \<and> sidebar u (trend_df t) = Inr ([], [])
         \<and> filtered_tables u t = Inr t"
  using assms
  by (simp add: all_keywords_def sidebar_def and_then_def multiselect_def filter_block_def
      filtered_tables_def)

text \<open>
  Witness for C10: a directory with the two blog files only. The trend table is empty,
  the fifteen blog rows pass unfiltered.
\<close>

theorem empty_trend_no_filter_witness:
  "df_empty (trend_df (load_and_preprocess_data scenario_parser two_blog_files))
   \<and> length (rows (blog_df (load_and_preprocess_data scenario_parser two_blog_files))) = 15
   \<and> all_keywords (trend_df (load_and_preprocess_data scenario_parser two_blog_files)) = Inr []
   \<and> sidebar january_ui (trend_df (load_and_preprocess_data scenario_parser two_blog_files))
       = Inr ([], [])
   \<and> filtered_tables january_ui (load_and_preprocess_data scenario_parser two_blog_files)
       = Inr (load_and_preprocess_data scenario_parser two_blog_files)"
  using empty_trend_no_filter[OF two_blog_trend_empty[of scenario_parser], of january_ui]
    two_blog_trend_empty[of scenario_parser]
  by (simp add: two_blog_rows january_length february_length)

text \<open>
  C1. A directory with a trend file and no blog file: the blog table is the empty
  frame. Whatever the date parser does, the run ends in an exception and no section is
  rendered: when the parser reads the period, as pandas does, the date range has two
  elements and the filter expression for the blog table raises \<open>KeyError\<close> on its missing
  \<^verbatim>\<open>target_keyword\<close> column (and if it read no period, the date widget would raise
  before that). The sections themselves do show their notice for the empty frame.
\<close>

theorem missing_blog_category_raises:
  "blog_df (load_and_preprocess_data parse trend_only) = DataFrame
   \<and> run parse analyzer trend_only trend_only_ui
       = (if parse None (Str ''2024-01-01'') = None then Inl ValueError
          else Inl (KeyError ''target_keyword''))
   \<and> run scenario_parser analyzer trend_only trend_only_ui = Inl (KeyError ''target_keyword'')
   \<and> tab2 analyzer DataFrame = Inr [Info No_data]
   \<and> tab3 DataFrame = Inr [Info No_data]
   \<and> tab4 analyzer DataFrame = Inr [Info No_news]"
proof -
  have r: "run p analyzer trend_only trend_only_ui
         = (if p None (Str ''2024-01-01'') = None then Inl ValueError
            else Inl (KeyError ''target_keyword''))" for p
    by (auto simp: run_def trend_only_def trend_only_ui_def load_defs filter_defs Let_def
        split: option.splits prod.splits)
  have b: "blog_df (load_and_preprocess_data parse trend_only) = DataFrame"
    by (simp add: trend_only_def load_defs Let_def split: option.splits prod.splits)
  have p: "scenario_parser None (Str ''2024-01-01'') \<noteq> None"
    by (simp add: scenario_parser_def digit_def)
  have "run scenario_parser analyzer trend_only trend_only_ui = Inl (KeyError ''target_keyword'')"
    using p by (simp only: r if_False)
  moreover have "tab2 analyzer DataFrame = Inr [Info No_data]"
    by (simp add: tab2_def df_empty_def DataFrame_def)
  moreover have "tab3 DataFrame = Inr [Info No_data]"
    by (simp add: tab3_def df_empty_def DataFrame_def)
  moreover have "tab4 analyzer DataFrame = Inr [Info No_news]"
    by (simp add: tab4_def df_empty_def DataFrame_def)
  ultimately show ?thesis using r[of parse] b by simp
qed

text \<open>
  C6, as stated, fails: with the two blog files only, nothing is selected (the option
  list is empty), and all fifteen rows with keyword \<^verbatim>\<open>sunglasses\<close> are in the blog
  table handed to rendering.
\<close>

theorem unselected_keyword_kept:
  "sidebar january_ui (trend_df (load_and_preprocess_data scenario_parser two_blog_files))
     = Inr ([], [])
   \<and> filtered_tables january_ui (load_and_preprocess_data scenario_parser two_blog_files)
     = Inr (load_and_preprocess_data scenario_parser two_blog_files)
   \<and> length (rows (blog_df (load_and_preprocess_data scenario_parser two_blog_files))) = 15
   \<and> list_all (\<lambda>r. cell_of r ''target_keyword'' = Str ''sunglasses'')
        (rows (blog_df (load_and_preprocess_data scenario_parser two_blog_files)))"
  using filtered_tables_empty_trend[OF two_blog_trend_empty[of scenario_parser], of january_ui]
    two_blog_keyword[of scenario_parser]
  by (simp add: two_blog_rows january_length february_length)

text \<open>
  C6, amended. When the date range has two elements and the four filter expressions
  succeed, a row whose \<^verbatim>\<open>target_keyword\<close> is not one of the selected keywords is in none
  of the four filtered tables, whatever its date. When the date range does not have two
  elements, the tables are handed on unfiltered.
\<close>

theorem unselected_keyword_excluded:
  "(filter_block selected [start_date, end_date] t = Inr f
      \<and> cell_of r ''target_keyword'' \<notin> Str ` set selected
    \<longrightarrow> r \<notin> set (rows (trend_df f)) \<and> r \<notin> set (rows (blog_df f))
        \<and> r \<notin> set (rows (shop_df f)) \<and> r \<notin> set (rows (news_df f)))
   \<and> (length date_range \<noteq> 2 \<longrightarrow> filter_block selected date_range t = Inr t)"
proof (rule conjI; rule impI)
  assume a: "filter_block selected [start_date, end_date] t = Inr f
      \<and> cell_of r ''target_keyword'' \<notin> Str ` set selected"
  then have n: "\<not> keyword_selected selected r" using not_selected by blast
  from a have fb: "filter_block selected [start_date, end_date] t = Inr f" by simp
  show "r \<notin> set (rows (trend_df f)) \<and> r \<notin> set (rows (blog_df f))
        \<and> r \<notin> set (rows (shop_df f)) \<and> r \<notin> set (rows (news_df f))"
    using n by (simp add: filter_block_range[OF fb])
next
  assume "length date_range \<noteq> 2"
  then show "filter_block selected date_range t = Inr t" by (simp add: filter_block_def)
qed

text \<open>
  Witness for C6: with all four categories present and \<^verbatim>\<open>sunglasses\<close> selected, the
  trend row of \<^verbatim>\<open>goggles\<close> is filtered out; with a one-element date range nothing is
  filtered.
\<close>

theorem unselected_keyword_excluded_witness:
  "cell_of (rows (trend_df (load_and_preprocess_data scenario_parser full_files)) ! 3)
       ''target_keyword'' = Str ''goggles''
   \<and> rows (trend_df (load_and_preprocess_data scenario_parser full_files)) ! 3
       \<in> set (rows (trend_df (load_and_preprocess_data scenario_parser full_files)))
   \<and> (\<exists>f. filter_block [''sunglasses''] [Date 2024 1 1, Date 2024 1 10]
            (load_and_preprocess_data scenario_parser full_files) = Inr f
          \<and> rows (trend_df (load_and_preprocess_data scenario_parser full_files)) ! 3
              \<notin> set (rows (trend_df f)))
   \<and> filter_block [''sunglasses''] [Date 2024 1 1]
        (load_and_preprocess_data scenario_parser full_files)
      = Inr (load_and_preprocess_data scenario_parser full_files)"
proof -
  let ?t = "load_and_preprocess_data scenario_parser full_files"
  let ?r = "rows (trend_df ?t) ! 3"
  have "map (\<lambda>r. (cell_of r ''target_keyword'', cell_of r ''period'')) (rows (trend_df ?t)) ! 3
        = (Str ''goggles'', Stamp (Date 2024 1 5) 0)"
    by (simp only: full_trend_cells) simp
  then have k: "cell_of ?r ''target_keyword'' = Str ''goggles''"
    using full_trend_length by simp
  have m: "?r \<in> set (rows (trend_df ?t))"
    using full_trend_length by simp
  from full_filter_succeeds obtain f where
    f: "filter_block [''sunglasses''] [Date 2024 1 1, Date 2024 1 10] ?t = Inr f" by blast
  have n: "cell_of ?r ''target_keyword'' \<notin> Str ` set [''sunglasses'']"
    using k by simp
  from unselected_keyword_excluded[of "[''sunglasses'']" "Date 2024 1 1" "Date 2024 1 10" ?t f ?r
      "[Date 2024 1 1]"] f n
  have "?r \<notin> set (rows (trend_df f))"
    and "filter_block [''sunglasses''] [Date 2024 1 1] ?t = Inr ?t" by simp_all
  with k m f show ?thesis by blast
qed

text \<open>
  C7. With a date range \<open>[start_date, end_date]\<close>, \<open>start_date\<close> not after \<open>end_date\<close>, a
  row of the trend table whose \<^verbatim>\<open>period\<close> falls on \<open>start_date\<close> or on \<open>end_date\<close> (at any
  time of the day) and whose keyword is selected is in the filtered trend table; the
  same holds for the blog table and \<^verbatim>\<open>postdate\<close>.
\<close>

theorem date_range_inclusive:
  assumes "filter_block selected [start_date, end_date] t = Inr f"
    and "date_le start_date end_date"
    and "cell_of r ''target_keyword'' = Str k" and "k \<in> set selected"
    and "d = start_date \<or> d = end_date"
  shows "(r \<in> set (rows (trend_df t)) \<and> cell_of r ''period'' = Stamp d s
            \<longrightarrow> r \<in> set (rows (trend_df f)))
       \<and> (r \<in> set (rows (blog_df t)) \<and> cell_of r ''postdate'' = Stamp d s
            \<longrightarrow> r \<in> set (rows (blog_df f)))"
proof -
  have k: "keyword_selected selected r" using assms(3,4) by (simp add: keyword_selected_def)
  have b: "date_le start_date d \<and> date_le d end_date"
    using assms(2,5) date_le_refl by auto
  show ?thesis
    using k b by (auto simp: filter_block_range[OF assms(1)] date_between_def)
qed

text \<open>
  Witness for C7: the trend row dated 10 January, the last day of the range.
\<close>

theorem date_range_inclusive_witness:
  "date_le (Date 2024 1 1) (Date 2024 1 10)
   \<and> cell_of (rows (trend_df (load_and_preprocess_data scenario_parser full_files)) ! 1)
       ''target_keyword'' = Str ''sunglasses''
   \<and> cell_of (rows (trend_df (load_and_preprocess_data scenario_parser full_files)) ! 1)
       ''period'' = Stamp (Date 2024 1 10) 0
   \<and> rows (trend_df (load_and_preprocess_data scenario_parser full_files)) ! 1
       \<in> set (rows (trend_df (load_and_preprocess_data scenario_parser full_files)))
   \<and> (\<exists>f. filter_block [''sunglasses''] [Date 2024 1 1, Date 2024 1 10]
            (load_and_preprocess_data scenario_parser full_files) = Inr f
          \<and> rows (trend_df (load_and_preprocess_data scenario_parser full_files)) ! 1
              \<in> set (rows (trend_df f)))"
proof -
  let ?t = "load_and_preprocess_data scenario_parser full_files"
  let ?r = "rows (trend_df ?t) ! 1"
  have "map (\<lambda>r. (cell_of r ''target_keyword'', cell_of r ''period'')) (rows (trend_df ?t)) ! 1
        = (Str ''sunglasses'', Stamp (Date 2024 1 10) 0)"
    by (simp only: full_trend_cells) simp
  then have k: "cell_of ?r ''target_keyword'' = Str ''sunglasses''"
    and p: "cell_of ?r ''period'' = Stamp (Date 2024 1 10) 0"
    using full_trend_length by simp_all
  have m: "?r \<in> set (rows (trend_df ?t))"
    using full_trend_length by simp
  have le: "date_le (Date 2024 1 1) (Date 2024 1 10)" by simp
  from full_filter_succeeds obtain f where
    f: "filter_block [''sunglasses''] [Date 2024 1 1, Date 2024 1 10] ?t = Inr f" by blast
  from date_range_inclusive[OF f le k, of "Date 2024 1 10" 0] m p
  have "?r \<in> set (rows (trend_df f))" by simp
  with le k p m f show ?thesis by blast
qed

lemma datetimelike_coerce: "datetimelike (coerce p)"
  by (cases p) (auto simp: coerce_def)

lemma two_blog_columns:
  "columns (blog_df (load_and_preprocess_data parse two_blog_files))
   = [''postdate'', ''bloggername'', ''title'', ''description'', ''target_keyword'']"
  by (simp add: scenario_defs load_defs Let_def)

lemma two_blog_postdates:
  "list_all datetimelike
     (map (\<lambda>r. cell_of r ''postdate'') (rows (blog_df (load_and_preprocess_data parse two_blog_files))))"
  by (simp add: scenario_defs load_defs Let_def cell_of_def datetimelike_coerce)

lemma keyword_date_filter_succeeds:
  assumes "''target_keyword'' \<in> set (columns df)" and "datecol \<in> set (columns df)"
    and "list_all datetimelike (map (\<lambda>r. cell_of r datecol) (rows df))"
  shows "\<exists>f. keyword_date_filter df datecol selected start_date end_date = Inr f"
  using assms by (simp add: keyword_date_filter_def and_then_def getitem_def dt_date_def)

text \<open>
  C8. For a date parser that reads the fifteen post dates: loading the two files gives
  one blog table of fifteen rows, all with keyword \<^verbatim>\<open>sunglasses\<close>, and the filter
  expression of lines 82 to 84 on that table, with \<^verbatim>\<open>sunglasses\<close> selected and the range
  1 to 10 January, gives the table of exactly the ten rows of the first file. So does
  the filter block, on any tables with this blog table on which it succeeds.
\<close>

theorem two_blog_files_scenario:
  assumes "reads_scenario_dates parse"
  shows "length (rows (blog_df (load_and_preprocess_data parse two_blog_files))) = 15
       \<and> list_all (\<lambda>r. cell_of r ''target_keyword'' = Str ''sunglasses'')
           (rows (blog_df (load_and_preprocess_data parse two_blog_files)))
       \<and> length (rows (blog_df (load_and_preprocess_data parse [january_file]))) = 10
       \<and> keyword_date_filter (blog_df (load_and_preprocess_data parse two_blog_files))
           ''postdate'' [''sunglasses''] (Date 2024 1 1) (Date 2024 1 10)
           = Inr ((blog_df (load_and_preprocess_data parse two_blog_files))
                    \<lparr>rows := rows (blog_df (load_and_preprocess_data parse [january_file]))\<rparr>)
       \<and> (\<forall>t f. blog_df t = blog_df (load_and_preprocess_data parse two_blog_files)
                \<and> filter_block [''sunglasses''] [Date 2024 1 1, Date 2024 1 10] t = Inr f
              \<longrightarrow> rows (blog_df f) = rows (blog_df (load_and_preprocess_data parse [january_file])))"
proof (intro conjI allI)
  let ?b = "blog_df (load_and_preprocess_data parse two_blog_files)"
  let ?j = "rows (blog_df (load_and_preprocess_data parse [january_file]))"
  have kept: "filter (\<lambda>r. keyword_selected [''sunglasses''] r
                        \<and> date_between ''postdate'' (Date 2024 1 1) (Date 2024 1 10) r)
              (rows ?b) = ?j"
    by (simp only: two_blog_rows filter_append january_kept[OF assms]
        february_dropped[OF assms] append_Nil2)
  show "length (rows ?b) = 15"
    by (simp add: two_blog_rows january_length february_length)
  show "list_all (\<lambda>r. cell_of r ''target_keyword'' = Str ''sunglasses'') (rows ?b)"
    by (rule two_blog_keyword)
  show "length ?j = 10"
    by (rule january_length)
  show "keyword_date_filter ?b ''postdate'' [''sunglasses''] (Date 2024 1 1) (Date 2024 1 10)
        = Inr (?b\<lparr>rows := ?j\<rparr>)"
  proof -
    have "\<exists>f. keyword_date_filter ?b ''postdate'' [''sunglasses''] (Date 2024 1 1) (Date 2024 1 10)
              = Inr f"
      by (rule keyword_date_filter_succeeds) (simp_all add: two_blog_columns two_blog_postdates)
    then obtain f where
      f: "keyword_date_filter ?b ''postdate'' [''sunglasses''] (Date 2024 1 1) (Date 2024 1 10)
          = Inr f" by blast
    from keyword_date_filter_Inr[OF f] have "f = ?b\<lparr>rows := ?j\<rparr>"
      by (simp only: kept)
    with f show ?thesis by simp
  qed
  fix t f
  show "blog_df t = ?b
          \<and> filter_block [''sunglasses''] [Date 2024 1 1, Date 2024 1 10] t = Inr f
        \<longrightarrow> rows (blog_df f) = ?j"
  proof
    assume a: "blog_df t = ?b
          \<and> filter_block [''sunglasses''] [Date 2024 1 1, Date 2024 1 10] t = Inr f"
    then have fb: "filter_block [''sunglasses''] [Date 2024 1 1, Date 2024 1 10] t = Inr f"
      by simp
    have "rows (blog_df f)
          = filter (\<lambda>r. keyword_selected [''sunglasses''] r
                        \<and> date_between ''postdate'' (Date 2024 1 1) (Date 2024 1 10) r)
              (rows ?b)"
      using filter_block_range[OF fb] a by simp
    then show "rows (blog_df f) = ?j"
      by (simp only: kept)
  qed
qed

text \<open>
  Witness for C8: the scenario's parser reads the fifteen dates; the filter expression
  on the loaded blog table keeps the ten rows of the first file, and so does a run on
  the directory with files of all four categories, the user selecting \<^verbatim>\<open>sunglasses\<close>
  and 1 to 10 January.
\<close>

theorem two_blog_files_scenario_witness:
  "reads_scenario_dates scenario_parser
   \<and> length (rows (blog_df (load_and_preprocess_data scenario_parser two_blog_files))) = 15
   \<and> length (rows (blog_df (load_and_preprocess_data scenario_parser [january_file]))) = 10
   \<and> keyword_date_filter (blog_df (load_and_preprocess_data scenario_parser two_blog_files))
       ''postdate'' [''sunglasses''] (Date 2024 1 1) (Date 2024 1 10)
       = Inr ((blog_df (load_and_preprocess_data scenario_parser two_blog_files))
                \<lparr>rows := rows (blog_df (load_and_preprocess_data scenario_parser [january_file]))\<rparr>)
   \<and> blog_df (load_and_preprocess_data scenario_parser full_files)
       = blog_df (load_and_preprocess_data scenario_parser two_blog_files)
   \<and> (\<exists>f. filtered_tables january_ui (load_and_preprocess_data scenario_parser full_files) = Inr f
          \<and> rows (blog_df f)
              = rows (blog_df (load_and_preprocess_data scenario_parser [january_file])))"
proof -
  let ?t = "load_and_preprocess_data scenario_parser full_files"
  let ?b = "load_and_preprocess_data scenario_parser two_blog_files"
  let ?j = "load_and_preprocess_data scenario_parser [january_file]"
  note th = two_blog_files_scenario[OF scenario_parser_reads]
  have l15: "length (rows (blog_df ?b)) = 15"
    using th by (rule conjunct1)
  have l10: "length (rows (blog_df ?j)) = 10"
    using th by (elim conjE)
  have kd: "keyword_date_filter (blog_df ?b) ''postdate'' [''sunglasses''] (Date 2024 1 1)
              (Date 2024 1 10) = Inr ((blog_df ?b)\<lparr>rows := rows (blog_df ?j)\<rparr>)"
    using th by (elim conjE)
  have all: "\<forall>t f. blog_df t = blog_df ?b
                \<and> filter_block [''sunglasses''] [Date 2024 1 1, Date 2024 1 10] t = Inr f
              \<longrightarrow> rows (blog_df f) = rows (blog_df ?j)"
    using th by (elim conjE)
  from full_filter_succeeds obtain f where
    f: "filter_block [''sunglasses''] [Date 2024 1 1, Date 2024 1 10] ?t = Inr f" by blast
  have ft: "filtered_tables january_ui ?t = Inr f"
    using f by (simp only: filtered_tables_def full_sidebar and_then_def sum.case prod.case)
  have r: "rows (blog_df f) = rows (blog_df ?j)"
    using all full_blog[of scenario_parser] f by (elim allE impE) (rule conjI)
  have e: "\<exists>f. filtered_tables january_ui ?t = Inr f \<and> rows (blog_df f) = rows (blog_df ?j)"
    using ft r by (intro exI conjI)
  show ?thesis
    using scenario_parser_reads l15 l10 kd full_blog[of scenario_parser] e by (intro conjI)
qed

section \<open>Properties of the keyword ranking\<close>

lemma set_unique: "set (unique xs) = set xs"
  by (induction xs rule: unique.induct) auto

lemma distinct_unique: "distinct (unique xs)"
  by (induction xs rule: unique.induct) (auto simp: set_unique)

lemma count_vocab_Inr:
  assumes "count_vocab docs = Inr v"
  shows "distinct v \<and> set v = set (concat docs) \<and> v \<noteq> []"
proof -
  from assms have v: "v = sort (unique (concat docs))" and ne: "unique (concat docs) \<noteq> []"
    by (auto simp: count_vocab_def Let_def split: if_splits)
  have "length v = length (unique (concat docs))"
    by (simp add: v)
  with ne have "v \<noteq> []" by auto
  then show ?thesis
    by (simp add: v set_unique distinct_unique)
qed

lemma argsort_props:
  "distinct (argsort keys) \<and> set (argsort keys) = {0..<length keys}
   \<and> length (argsort keys) = length keys
   \<and> sorted (map (\<lambda>i. keys ! i) (argsort keys))"
  by (simp add: argsort_def)

lemma sorted_take_drop:
  assumes "sorted (map f xs)" and "x \<in> set (take n xs)" and "y \<in> set (drop n xs)"
  shows "f x \<le> f y"
proof -
  have "sorted (map f (take n xs) @ map f (drop n xs))"
    using assms(1) by (simp flip: map_append)
  with assms(2,3) show ?thesis by (auto simp: sorted_append)
qed

lemma length_filter_member:
  assumes "distinct is" and "set is \<subseteq> {0..<n}"
  shows "length (filter (\<lambda>i. i \<in> set is) [0..<n]) = length is"
proof -
  have d: "distinct (filter (\<lambda>i. i \<in> set is) [0..<n])"
    by simp
  have s: "set (filter (\<lambda>i. i \<in> set is) [0..<n]) = set is"
    using assms(2) by auto
  have "length (filter (\<lambda>i. i \<in> set is) [0..<n]) = card (set is)"
    using distinct_card[OF d] by (simp only: s)
  also have "\<dots> = length is"
    by (rule distinct_card[OF assms(1)])
  finally show ?thesis .
qed

lemma limit_features_Inr:
  assumes "limit_features docs v limit = Inr kept" and "distinct v"
  shows "distinct kept \<and> set kept \<subseteq> set v \<and> length kept = min limit (length v) \<and> kept \<noteq> []
         \<and> (\<forall>t \<in> set kept. \<forall>u \<in> set v - set kept. term_freq docs u \<le> term_freq docs t)"
proof (cases "limit < length v")
  case False
  with assms show ?thesis
    by (auto simp: limit_features_def Let_def split: if_splits)
next
  case True
  let ?keys = "map (\<lambda>c. - int c) (map (term_freq docs) v)"
  let ?ord = "argsort ?keys"
  let ?is = "take limit ?ord"
  let ?js = "filter (\<lambda>i. i \<in> set ?is) [0..<length v]"
  have kept: "kept = map (\<lambda>i. v ! i) ?js" and ne: "kept \<noteq> []"
    using assms(1) True by (auto simp: limit_features_def Let_def split: if_splits)
  have ord: "distinct ?ord" "set ?ord = {0..<length v}" "length ?ord = length v"
    "sorted (map (\<lambda>i. ?keys ! i) ?ord)"
    using argsort_props[of ?keys] by simp_all
  have is_d: "distinct ?is" using ord(1) by simp
  have is_sub: "set ?is \<subseteq> {0..<length v}"
    using ord(2) set_take_subset[of limit ?ord] by blast
  have is_len: "length ?is = limit" using True ord(3) by simp
  have js_set: "set ?js = set ?is" using is_sub by auto
  have len: "length kept = limit"
    using length_filter_member[OF is_d is_sub] is_len by (simp add: kept)
  have inj: "inj_on (\<lambda>i. v ! i) (set ?js)"
  proof (rule inj_onI)
    fix x y assume "x \<in> set ?js" "y \<in> set ?js" "v ! x = v ! y"
    then have "x < length v" "y < length v" "v ! x = v ! y" by simp_all
    then show "x = y" using assms(2) by (simp add: nth_eq_iff_index_eq)
  qed
  have js_d: "distinct ?js" by simp
  have d: "distinct kept"
    unfolding kept using js_d inj by (simp only: distinct_map)
  have sub: "set kept \<subseteq> set v"
    unfolding kept by auto
  have tf: "term_freq docs u \<le> term_freq docs t" if t: "t \<in> set kept" and u: "u \<in> set v - set kept" for t u
  proof -
    from t obtain i where i: "i \<in> set ?is" "t = v ! i" "i < length v"
      unfolding kept using js_set by auto
    from u obtain j where j: "j < length v" "u = v ! j"
      by (auto simp: in_set_conv_nth)
    have "j \<notin> set ?is"
    proof
      assume "j \<in> set ?is"
      then have "j \<in> set ?js" using j(1) by simp
      then have "u \<in> set kept" unfolding kept using j(2) by auto
      with u show False by simp
    qed
    moreover have "j \<in> set ?ord" using ord(2) j(1) by simp
    ultimately have "j \<in> set (drop limit ?ord)"
      by (metis Un_iff append_take_drop_id set_append)
    from sorted_take_drop[OF ord(4) i(1) this]
    have "?keys ! i \<le> ?keys ! j" .
    then show ?thesis using i j by simp
  qed
  from d sub len ne tf True show ?thesis by auto
qed


lemma doc_freq_le: "doc_freq docs t \<le> length docs"
  by (simp add: doc_freq_def)

lemma idf_ge_1: "1 \<le> idf docs t"
proof -
  have "1 + real (doc_freq docs t) \<le> 1 + real (length docs)"
    using doc_freq_le[of docs t] by simp
  then have "1 \<le> (1 + real (length docs)) / (1 + real (doc_freq docs t))"
    by (simp add: le_divide_eq)
  then have "0 \<le> ln ((1 + real (length docs)) / (1 + real (doc_freq docs t)))"
    by simp
  then show ?thesis by (simp add: idf_def)
qed

lemma weight_nonneg: "0 \<le> weight docs d t"
  using idf_ge_1[of docs t] by (simp add: weight_def)

lemma l2_norm_nonneg: "0 \<le> l2_norm docs v d"
  unfolding l2_norm_def by (rule real_sqrt_ge_zero, rule sum_list_nonneg) auto

lemma tfidf_nonneg: "0 \<le> tfidf docs v d t"
  using weight_nonneg[of docs d t] l2_norm_nonneg[of docs v d]
  by (simp add: tfidf_def Let_def)

lemma score_nonneg: "0 \<le> score docs v t"
  unfolding score_def by (rule sum_list_nonneg) (auto simp: tfidf_nonneg)

lemma ranking_of_Inr:
  assumes "ranking_of analyzer n raw = Inr ranking"
  obtains docs v kept where
    "analyze_all analyzer raw = Inr docs" "count_vocab docs = Inr v"
    "limit_features docs v n = Inr kept" "ranking = map (\<lambda>t. (t, score docs kept t)) kept"
  using assms by (auto simp: ranking_of_def and_then_def split: sum.splits)

lemma ranking_props:
  assumes "ranking_of analyzer n raw = Inr ranking"
  shows "length ranking \<le> n \<and> distinct (map fst ranking) \<and> list_all (\<lambda>p. 0 \<le> snd p) ranking
         \<and> ranking \<noteq> []"
proof -
  from assms obtain docs v kept where
    v: "count_vocab docs = Inr v" and k: "limit_features docs v n = Inr kept"
    and r: "ranking = map (\<lambda>t. (t, score docs kept t)) kept"
    by (rule ranking_of_Inr)
  from count_vocab_Inr[OF v] have "distinct v" by simp
  from limit_features_Inr[OF k this]
  have "distinct kept" "length kept = min n (length v)" "kept \<noteq> []" by simp_all
  then show ?thesis
    by (simp add: r comp_def list_all_iff score_nonneg)
qed

subsection \<open>Blank documents have no tokens\<close>

lemma code_point_upper:
  assumes "65 \<le> (of_char b :: nat)" and "(of_char b :: nat) \<le> 90"
  shows "code_point (b # cs) = (if cs = [] then of_char b else 65533)"
  using assms by (auto simp: code_point_def split: list.splits)

lemma space_lead_not_upper:
  assumes "is_space (code_point (b # cs))"
  shows "lower_char b = b"
proof (cases "65 \<le> (of_char b :: nat) \<and> (of_char b :: nat) \<le> 90")
  case True
  then have "code_point (b # cs) = (if cs = [] then of_char b else 65533)"
    by (simp add: code_point_upper)
  with assms True show ?thesis
    by (auto simp: is_space_def split: if_splits)
next
  case False
  then show ?thesis by (auto simp: lower_char_def Let_def)
qed

lemma lower_continuation: "continuation c \<Longrightarrow> lower_char c = c"
  by (auto simp: continuation_def lower_char_def Let_def)

lemma whitespace_only_lower: "whitespace_only s \<Longrightarrow> map lower_char s = s"
proof (induction s rule: characters.induct)
  case 1
  then show ?case by simp
next
  case (2 b bs)
  from "2.prems" have sp: "is_space (code_point (b # takeWhile continuation bs))"
    and rest: "whitespace_only (dropWhile continuation bs)"
    by (simp_all add: whitespace_only_def)
  have t: "map lower_char (takeWhile continuation bs) = takeWhile continuation bs"
    by (rule map_idI) (auto dest: set_takeWhileD simp: lower_continuation)
  have d: "map lower_char (dropWhile continuation bs) = dropWhile continuation bs"
    using "2.IH" rest by simp
  have "map lower_char bs
        = map lower_char (takeWhile continuation bs) @ map lower_char (dropWhile continuation bs)"
    by (simp flip: map_append)
  then have "map lower_char bs = bs"
    unfolding t d by simp
  with space_lead_not_upper[OF sp] show ?case by simp
qed

lemma space_not_word:
  assumes "\<forall>n. is_space n \<longrightarrow> \<not> uni_word u n" and "is_space n"
  shows "\<not> is_word_char u n"
proof (cases "n < 128")
  case True
  with assms(2) show ?thesis by (auto simp: is_word_char_def is_space_def)
next
  case False
  with assms show ?thesis by (simp add: is_word_char_def)
qed

lemma token_scan_no_word:
  "list_all (\<lambda>ch. \<not> is_word_char u (code_point ch)) chs \<Longrightarrow> token_scan u [] chs = []"
  by (induction chs) (auto simp: flush_def)

lemma lower_text_blank:
  assumes "\<forall>s. whitespace_only s \<longrightarrow> uni_lower u s = s" and "whitespace_only s"
  shows "lower_text u s = s"
  using assms whitespace_only_lower[OF assms(2)] by (simp add: lower_text_def)

lemma build_analyzer_blank:
  assumes "\<forall>n. is_space n \<longrightarrow> \<not> uni_word u n"
    and "\<forall>s. whitespace_only s \<longrightarrow> uni_lower u s = s"
    and "whitespace_only s"
  shows "build_analyzer u s = []"
proof -
  have "list_all (\<lambda>ch. \<not> is_word_char u (code_point ch)) (characters s)"
    using assms(3) space_not_word[OF assms(1)] by (auto simp: whitespace_only_def list_all_iff)
  then show ?thesis
    by (simp add: build_analyzer_def lower_text_blank[OF assms(2,3)] token_scan_no_word)
qed

lemma blank_fillna:
  "blank c \<Longrightarrow> \<exists>s. fillna_cell c = Str s \<and> whitespace_only s"
  by (cases c) (auto simp: whitespace_only_def)

lemma analyze_all_blank:
  assumes "\<forall>n. is_space n \<longrightarrow> \<not> uni_word u n"
    and "\<forall>s. whitespace_only s \<longrightarrow> uni_lower u s = s"
    and "list_all blank raw"
  shows "analyze_all (build_analyzer u) (fillna raw) = Inr (map (\<lambda>c. []) raw)"
proof -
  have "\<forall>c \<in> set raw. str_cell (fillna_cell c) \<noteq> None
          \<and> build_analyzer u (the (str_cell (fillna_cell c))) = []"
  proof
    fix c assume "c \<in> set raw"
    with assms(3) have "blank c" by (simp add: list_all_iff)
    from blank_fillna[OF this] obtain s where "fillna_cell c = Str s" "whitespace_only s"
      by blast
    with build_analyzer_blank[OF assms(1,2)]
    show "str_cell (fillna_cell c) \<noteq> None \<and> build_analyzer u (the (str_cell (fillna_cell c))) = []"
      by simp
  qed
  then show ?thesis
    by (auto simp: analyze_all_def fillna_def list_all_iff comp_def)
qed

lemma ranking_of_blank:
  assumes "\<forall>n. is_space n \<longrightarrow> \<not> uni_word u n"
    and "\<forall>s. whitespace_only s \<longrightarrow> uni_lower u s = s"
    and "list_all blank raw"
  shows "ranking_of (build_analyzer u) n (fillna raw) = Inl ValueError"
proof -
  have c: "concat (map (\<lambda>c. []) raw) = ([] :: string list)" by (induction raw) auto
  have "count_vocab (map (\<lambda>c. []) raw) = Inl ValueError"
    unfolding count_vocab_def c by simp
  then show ?thesis
    by (simp add: ranking_of_def analyze_all_blank[OF assms] and_then_def)
qed

lemma hangul_no_space: "\<forall>n. is_space n \<longrightarrow> \<not> uni_word hangul n"
  by (auto simp: hangul_def is_space_def)

lemma hangul_lower_blank: "\<forall>s. whitespace_only s \<longrightarrow> uni_lower hangul s = s"
  by (simp add: hangul_def whitespace_only_lower)

lemmas analyzer_defs = build_analyzer_def lower_text_def hangul_def is_word_char_def
  lower_char_def flush_def code_point_def continuation_def

text \<open>
  The analyzer reads characters, not bytes: two syllables apart are each too short for
  a token, together they are one; an ellipsis separates words; white space above 127
  gives no token.
\<close>

lemma analyzer_on_characters:
  "build_analyzer hangul (syllable_han @ '' '' @ syllable_geul) = []
   \<and> build_analyzer hangul (syllable_han @ syllable_geul @ '' ab'' @ horizontal_ellipsis @ ''cd'')
       = [syllable_han @ syllable_geul, ''ab'', ''cd'']
   \<and> build_analyzer hangul (no_break_space @ ideographic_space) = []"
  by (simp add: analyzer_defs syllable_han_def syllable_geul_def horizontal_ellipsis_def
      no_break_space_def ideographic_space_def)

subsection \<open>The two titles with a common word, evaluated\<close>

lemma common_analyze: "analyze_all (build_analyzer hangul) common_word_docs = Inr common_word_tokens"
  by (simp add: analyze_all_def common_word_docs_def common_word_tokens_def other_words_def
      analyzer_defs)

lemma common_vocab: "count_vocab common_word_tokens = Inr (''aa'' # other_words)"
  by (simp add: count_vocab_def common_word_tokens_def other_words_def)

lemma common_tf:
  "map (term_freq common_word_tokens) (''aa'' # other_words) = 2 # replicate 25 3"
  by (simp add: term_freq_def common_word_tokens_def other_words_def eval_nat_numeral)

lemma common_limit: "limit_features common_word_tokens (''aa'' # other_words) 25 = Inr other_words"
  unfolding limit_features_def Let_def common_tf
  by (simp add: argsort_def other_words_def eval_nat_numeral upt_rec)

lemma common_df:
  "doc_freq common_word_tokens ''aa'' = 2
   \<and> list_all (\<lambda>t. doc_freq common_word_tokens t = 1) other_words"
  by (simp add: doc_freq_def common_word_tokens_def other_words_def)


lemma common_ranking:
  "ranking_of (build_analyzer hangul) 25 common_word_docs
   = Inr (map (\<lambda>t. (t, score common_word_tokens other_words t)) other_words)"
  by (simp add: ranking_of_def and_then_def common_analyze common_vocab common_limit)

subsection \<open>The claims about the ranking\<close>

text \<open>
  C4, as stated, fails: of the 26 words of the two titles, \<^verbatim>\<open>aa\<close> is in both documents
  and every other word in one, yet with \<^verbatim>\<open>max_features=25\<close> the vectorizer keeps the 25
  other words and drops \<^verbatim>\<open>aa\<close>, the word with the highest document frequency.
\<close>

theorem common_word_dropped:
  "feature_names (build_analyzer hangul) 25 common_word_docs = Inr other_words
   \<and> analyze_all (build_analyzer hangul) common_word_docs = Inr common_word_tokens
   \<and> ''aa'' \<notin> set other_words
   \<and> doc_freq common_word_tokens ''aa'' = 2
   \<and> list_all (\<lambda>t. doc_freq common_word_tokens t = 1) other_words"
proof -
  have "feature_names (build_analyzer hangul) 25 common_word_docs = Inr other_words"
    by (simp add: feature_names_def common_ranking and_then_def comp_def)
  moreover have "''aa'' \<notin> set other_words"
    by (simp add: other_words_def)
  ultimately show ?thesis
    using common_analyze common_df by simp
qed

text \<open>
  C4, amended. When the ranking succeeds, its terms are terms of the collection, their
  number is \<open>max_features\<close> or the size of the vocabulary if that is smaller, and no term
  left out occurs more often in the whole collection than a term that is kept: the
  pre-filter keeps the terms with the highest total number of occurrences. Only the kept
  terms are scored, each against the kept vocabulary.
\<close>

theorem most_frequent_terms_kept:
  assumes "analyze_all analyzer raw = Inr docs"
    and "ranking_of analyzer max_features raw = Inr ranking"
  shows "set (map fst ranking) \<subseteq> set (concat docs)
       \<and> length ranking = min max_features (card (set (concat docs)))
       \<and> (\<forall>t \<in> set (map fst ranking). \<forall>u \<in> set (concat docs) - set (map fst ranking).
             term_freq docs u \<le> term_freq docs t)
       \<and> list_all (\<lambda>p. snd p = score docs (map fst ranking) (fst p)) ranking"
proof -
  from assms(2) obtain docs' v kept where
    a: "analyze_all analyzer raw = Inr docs'" and v: "count_vocab docs' = Inr v" and
    k: "limit_features docs' v max_features = Inr kept" and
    r: "ranking = map (\<lambda>t. (t, score docs' kept t)) kept"
    by (rule ranking_of_Inr)
  from a assms(1) have docs: "docs' = docs" by simp
  from count_vocab_Inr[OF v] have dv: "distinct v" and sv: "set v = set (concat docs)"
    unfolding docs by simp_all
  have lv: "length v = card (set (concat docs))"
    using dv sv by (metis distinct_card)
  have fst: "map fst ranking = kept"
    by (simp add: r comp_def)
  from limit_features_Inr[OF k dv] show ?thesis
    unfolding fst docs sv lv by (simp add: r docs list_all_iff comp_def)
qed

text \<open>
  Witness for C4: the two titles. The 25 words kept each occur three times, the word
  dropped twice.
\<close>

theorem most_frequent_terms_kept_witness:
  "analyze_all (build_analyzer hangul) common_word_docs = Inr common_word_tokens
   \<and> (\<exists>ranking. ranking_of (build_analyzer hangul) 25 common_word_docs = Inr ranking
         \<and> map fst ranking = other_words
         \<and> length ranking = min 25 (card (set (concat common_word_tokens)))
         \<and> term_freq common_word_tokens ''aa'' \<le> term_freq common_word_tokens ''ab'')"
proof -
  let ?r = "map (\<lambda>t. (t, score common_word_tokens other_words t)) other_words"
  have f: "map fst ?r = other_words" by (simp add: comp_def)
  note th = most_frequent_terms_kept[OF common_analyze common_ranking]
  have len: "length ?r = min 25 (card (set (concat common_word_tokens)))"
    using th by (elim conjE)
  have all: "\<forall>t \<in> set (map fst ?r). \<forall>u \<in> set (concat common_word_tokens) - set (map fst ?r).
             term_freq common_word_tokens u \<le> term_freq common_word_tokens t"
    using th by (elim conjE)
  have ab: "''ab'' \<in> set (map fst ?r)"
    unfolding f by (simp add: other_words_def)
  have aa: "''aa'' \<in> set (concat common_word_tokens) - set (map fst ?r)"
    unfolding f by (simp add: other_words_def common_word_tokens_def)
  from all ab have "\<forall>u \<in> set (concat common_word_tokens) - set (map fst ?r).
             term_freq common_word_tokens u \<le> term_freq common_word_tokens ''ab''"
    by (rule bspec)
  from this aa have "term_freq common_word_tokens ''aa'' \<le> term_freq common_word_tokens ''ab''"
    by (rule bspec)
  with common_analyze common_ranking f len show ?thesis by blast
qed

lemma tfidf_block_chart:
  assumes "tfidf_block analyzer n df col key = Ranking_chart key' r"
  shows "\<exists>raw. getitem df col = Inr raw \<and> ranking_of analyzer n (fillna raw) = Inr r"
  using assms by (auto simp: tfidf_block_def and_then_def split: sum.splits)

lemma tab2_chart:
  assumes "tab2 analyzer f_blog = Inr ws" and "Ranking_chart key r \<in> set ws"
  shows "\<exists>raw. ranking_of analyzer 30 (fillna raw) = Inr r"
proof -
  from assms have "tfidf_block analyzer 30 f_blog ''description'' ''fig3_tfidf'' = Ranking_chart key r"
    by (auto simp: tab2_def and_then_def Let_def split: if_splits sum.splits)
  from tfidf_block_chart[OF this] show ?thesis by blast
qed

lemma tab4_chart:
  assumes "tab4 analyzer f_news = Inr ws" and "Ranking_chart key r \<in> set ws"
  shows "\<exists>raw. ranking_of analyzer 25 (fillna raw) = Inr r"
proof -
  from assms have "tfidf_block analyzer 25 f_news ''title'' ''fig6_news'' = Ranking_chart key r"
    by (auto simp: tab4_def and_then_def Let_def split: if_splits sum.splits)
  from tfidf_block_chart[OF this] show ?thesis by blast
qed

lemma two_posts_docs:
  "analyze_all (build_analyzer hangul) (fillna [Str ''red sunglasses'', Str ''blue sunglasses''])
   = Inr [[''red'', ''sunglasses''], [''blue'', ''sunglasses'']]"
  by (simp add: analyze_all_def fillna_def analyzer_defs)

lemma two_posts_ranking:
  "ranking_of (build_analyzer hangul) 30 (fillna [Str ''red sunglasses'', Str ''blue sunglasses''])
   = Inr (map (\<lambda>t. (t, score [[''red'', ''sunglasses''], [''blue'', ''sunglasses'']]
                         [''blue'', ''red'', ''sunglasses''] t))
            [''blue'', ''red'', ''sunglasses''])"
  by (simp add: ranking_of_def and_then_def two_posts_docs count_vocab_def limit_features_def)

lemma two_posts_tab2:
  "\<exists>w1 w3. tab2 (build_analyzer hangul) two_posts
     = Inr [w1, Ranking_chart ''fig3_tfidf''
                 (map (\<lambda>t. (t, score [[''red'', ''sunglasses''], [''blue'', ''sunglasses'']]
                         [''blue'', ''red'', ''sunglasses''] t))
                    [''blue'', ''red'', ''sunglasses'']), w3]"
proof -
  have g: "getitem two_posts ''description'' = Inr [Str ''red sunglasses'', Str ''blue sunglasses'']"
    by (simp add: getitem_def two_posts_def blog_table_def blog_post_def cell_of_def)
  have b: "tfidf_block (build_analyzer hangul) 30 two_posts ''description'' ''fig3_tfidf''
     = Ranking_chart ''fig3_tfidf''
                 (map (\<lambda>t. (t, score [[''red'', ''sunglasses''], [''blue'', ''sunglasses'']]
                         [''blue'', ''red'', ''sunglasses''] t))
                    [''blue'', ''red'', ''sunglasses''])"
    unfolding tfidf_block_def g and_then_def by (simp only: sum.case two_posts_ranking)
  have e: "\<not> df_empty two_posts"
    by (simp add: df_empty_def two_posts_def blog_table_def)
  have n: "\<exists>names. getitem two_posts ''bloggername'' = Inr names"
    by (simp add: getitem_def two_posts_def blog_table_def)
  have l: "\<exists>shown. getitem_list two_posts [''postdate'', ''bloggername'', ''title'', ''target_keyword'']
            = Inr shown"
    by (simp add: getitem_list_def two_posts_def blog_table_def)
  from n l obtain names shown where
    "getitem two_posts ''bloggername'' = Inr names"
    "getitem_list two_posts [''postdate'', ''bloggername'', ''title'', ''target_keyword''] = Inr shown"
    by blast
  then show ?thesis
    unfolding tab2_def using e by (simp add: and_then_def b Let_def)
qed

text \<open>
  C3. A ranking that the vectorizer returns has at most \<open>max_features\<close> terms, its terms
  are pairwise distinct, and every score is at least 0. The blog section asks for 30
  terms and the news section for 25: a ranking chart in the output of either section
  carries a ranking within that bound, with distinct terms and scores at least 0.
\<close>

theorem ranking_bounded_distinct_nonnegative:
  "(ranking_of analyzer max_features raw = Inr ranking
      \<longrightarrow> length ranking \<le> max_features \<and> distinct (map fst ranking)
          \<and> list_all (\<lambda>p. 0 \<le> snd p) ranking)
   \<and> (tab2 analyzer f_blog = Inr ws \<and> Ranking_chart key r \<in> set ws
      \<longrightarrow> length r \<le> 30 \<and> distinct (map fst r) \<and> list_all (\<lambda>p. 0 \<le> snd p) r)
   \<and> (tab4 analyzer f_news = Inr ws' \<and> Ranking_chart key' r' \<in> set ws'
      \<longrightarrow> length r' \<le> 25 \<and> distinct (map fst r') \<and> list_all (\<lambda>p. 0 \<le> snd p) r')"
proof (intro conjI impI)
  assume "ranking_of analyzer max_features raw = Inr ranking"
  from ranking_props[OF this]
  show "length ranking \<le> max_features" "distinct (map fst ranking)"
    "list_all (\<lambda>p. 0 \<le> snd p) ranking" by simp_all
next
  assume "tab2 analyzer f_blog = Inr ws \<and> Ranking_chart key r \<in> set ws"
  then obtain raw2 where "ranking_of analyzer 30 (fillna raw2) = Inr r"
    using tab2_chart by blast
  from ranking_props[OF this]
  show "length r \<le> 30" "distinct (map fst r)" "list_all (\<lambda>p. 0 \<le> snd p) r" by simp_all
next
  assume "tab4 analyzer f_news = Inr ws' \<and> Ranking_chart key' r' \<in> set ws'"
  then obtain raw4 where "ranking_of analyzer 25 (fillna raw4) = Inr r'"
    using tab4_chart by blast
  from ranking_props[OF this]
  show "length r' \<le> 25" "distinct (map fst r')" "list_all (\<lambda>p. 0 \<le> snd p) r'" by simp_all
qed

text \<open>
  Witness for C3: the blog section for two posts. Its chart ranks the three words of
  the two descriptions.
\<close>

theorem ranking_bounded_distinct_nonnegative_witness:
  "\<exists>w1 ranking w3. tab2 (build_analyzer hangul) two_posts = Inr [w1, Ranking_chart ''fig3_tfidf'' ranking, w3]
     \<and> ranking_of (build_analyzer hangul) 30 (fillna [Str ''red sunglasses'', Str ''blue sunglasses''])
         = Inr ranking
     \<and> map fst ranking = [''blue'', ''red'', ''sunglasses'']
     \<and> length ranking \<le> 30 \<and> distinct (map fst ranking) \<and> list_all (\<lambda>p. 0 \<le> snd p) ranking"
proof -
  let ?r = "map (\<lambda>t. (t, score [[''red'', ''sunglasses''], [''blue'', ''sunglasses'']]
                         [''blue'', ''red'', ''sunglasses''] t))
                    [''blue'', ''red'', ''sunglasses'']"
  from two_posts_tab2 obtain w1 w3 where
    t: "tab2 (build_analyzer hangul) two_posts = Inr [w1, Ranking_chart ''fig3_tfidf'' ?r, w3]" by blast
  have m: "Ranking_chart ''fig3_tfidf'' ?r \<in> set [w1, Ranking_chart ''fig3_tfidf'' ?r, w3]"
    by simp
  note th = ranking_bounded_distinct_nonnegative[of "build_analyzer hangul" 30
      "fillna [Str ''red sunglasses'', Str ''blue sunglasses'']" ?r
      two_posts "[w1, Ranking_chart ''fig3_tfidf'' ?r, w3]" "''fig3_tfidf''" ?r]
  from th two_posts_ranking
  have a: "length ?r \<le> 30 \<and> distinct (map fst ?r) \<and> list_all (\<lambda>p. 0 \<le> snd p) ?r"
    by blast
  have f: "map fst ?r = [''blue'', ''red'', ''sunglasses'']" by simp
  have "tab2 (build_analyzer hangul) two_posts = Inr [w1, Ranking_chart ''fig3_tfidf'' ?r, w3]
     \<and> ranking_of (build_analyzer hangul) 30 (fillna [Str ''red sunglasses'', Str ''blue sunglasses''])
         = Inr ?r
     \<and> map fst ?r = [''blue'', ''red'', ''sunglasses'']
     \<and> length ?r \<le> 30 \<and> distinct (map fst ?r) \<and> list_all (\<lambda>p. 0 \<le> snd p) ?r"
    using t two_posts_ranking f a by (intro conjI) (elim conjE, assumption)+
  then show ?thesis
    by - (rule exI[of _ w1], rule exI[of _ ?r], rule exI[of _ w3], assumption)
qed

lemma tfidf_block_blank:
  assumes "\<forall>n. is_space n \<longrightarrow> \<not> uni_word u n"
    and "\<forall>s. whitespace_only s \<longrightarrow> uni_lower u s = s"
    and "list_all blank raw" and "getitem df col = Inr raw"
  shows "tfidf_block (build_analyzer u) n df col key = Write Not_enough_text"
  by (simp add: tfidf_block_def assms(4) and_then_def ranking_of_blank[OF assms(1,2,3)])

text \<open>
  C2. The Unicode tables are such that no white space character is a word character
  and that lower-casing leaves a text of white space as it is. Then for a collection
  in which every document is blank (a missing value, the empty text, or white space
  only, Unicode white space included), the empty collection included, the vectorizer
  finds no term and raises \<open>ValueError\<close>; the \<^verbatim>\<open>try\<close> block around it writes the notice
  and draws no chart. The blog section and the news section go on to their tables: with
  the other columns present, each returns its widgets, the notice in place of the
  ranking chart.
\<close>

theorem blank_documents_not_ranked:
  assumes "\<forall>n. is_space n \<longrightarrow> \<not> uni_word u n"
    and "\<forall>s. whitespace_only s \<longrightarrow> uni_lower u s = s"
    and "list_all blank raw"
  shows "ranking_of (build_analyzer u) max_features (fillna raw) = Inl ValueError
       \<and> (getitem df col = Inr raw
            \<longrightarrow> tfidf_block (build_analyzer u) max_features df col key = Write Not_enough_text)
       \<and> (\<not> df_empty f_blog \<and> getitem f_blog ''description'' = Inr raw
            \<and> getitem f_blog ''bloggername'' = Inr names
            \<and> getitem_list f_blog [''postdate'', ''bloggername'', ''title'', ''target_keyword'']
                = Inr shown
            \<longrightarrow> tab2 (build_analyzer u) f_blog
                = Inr [Counts_chart ''fig2_blog'' (take 20 (value_counts names)),
                       Write Not_enough_text, Table shown ''postdate'' 20])
       \<and> (\<not> df_empty f_news \<and> getitem f_news ''title'' = Inr raw
            \<and> getitem_list f_news [''target_keyword'', ''title'', ''pubDate''] = Inr shown'
            \<longrightarrow> tab4 (build_analyzer u) f_news
                = Inr [Write Not_enough_text, Table shown' ''pubDate'' 30])"
proof (intro conjI impI)
  show "ranking_of (build_analyzer u) max_features (fillna raw) = Inl ValueError"
    by (rule ranking_of_blank[OF assms])
next
  assume "getitem df col = Inr raw"
  then show "tfidf_block (build_analyzer u) max_features df col key = Write Not_enough_text"
    by (rule tfidf_block_blank[OF assms])
next
  assume a: "\<not> df_empty f_blog \<and> getitem f_blog ''description'' = Inr raw
            \<and> getitem f_blog ''bloggername'' = Inr names
            \<and> getitem_list f_blog [''postdate'', ''bloggername'', ''title'', ''target_keyword'']
                = Inr shown"
  then have "tfidf_block (build_analyzer u) 30 f_blog ''description'' ''fig3_tfidf''
             = Write Not_enough_text"
    using tfidf_block_blank[OF assms] by blast
  with a show "tab2 (build_analyzer u) f_blog
                = Inr [Counts_chart ''fig2_blog'' (take 20 (value_counts names)),
                       Write Not_enough_text, Table shown ''postdate'' 20]"
    by (simp add: tab2_def and_then_def Let_def)
next
  assume a: "\<not> df_empty f_news \<and> getitem f_news ''title'' = Inr raw
            \<and> getitem_list f_news [''target_keyword'', ''title'', ''pubDate''] = Inr shown'"
  then have "tfidf_block (build_analyzer u) 25 f_news ''title'' ''fig6_news''
             = Write Not_enough_text"
    using tfidf_block_blank[OF assms] by blast
  with a show "tab4 (build_analyzer u) f_news
                = Inr [Write Not_enough_text, Table shown' ''pubDate'' 30]"
    by (simp add: tab4_def and_then_def Let_def)
qed

lemma blank_descriptions_blank: "list_all blank blank_descriptions"
  by (simp add: blank_descriptions_def whitespace_only_def no_break_space_def
      ideographic_space_def code_point_def continuation_def is_space_def)

text \<open>
  Witness for C2: five blog posts whose descriptions are missing, two spaces, empty, a
  no-break space, and an ideographic space followed by a space.
\<close>

theorem blank_documents_not_ranked_witness:
  "list_all blank blank_descriptions
   \<and> whitespace_only no_break_space
   \<and> getitem blank_posts ''description'' = Inr blank_descriptions
   \<and> \<not> df_empty blank_posts
   \<and> ranking_of (build_analyzer hangul) 30 (fillna blank_descriptions) = Inl ValueError
   \<and> tfidf_block (build_analyzer hangul) 30 blank_posts ''description'' ''fig3_tfidf''
       = Write Not_enough_text
   \<and> (\<exists>names shown. tab2 (build_analyzer hangul) blank_posts
         = Inr [Counts_chart ''fig2_blog'' (take 20 (value_counts names)),
                Write Not_enough_text, Table shown ''postdate'' 20])"
proof -
  note b = blank_descriptions_blank
  have w: "whitespace_only no_break_space"
    by (simp add: whitespace_only_def no_break_space_def code_point_def continuation_def
        is_space_def)
  have g: "getitem blank_posts ''description'' = Inr blank_descriptions"
    by (simp add: getitem_def blank_posts_def blog_table_def blog_post_def cell_of_def
        blank_descriptions_def)
  have e: "\<not> df_empty blank_posts"
    by (simp add: df_empty_def blank_posts_def blog_table_def blank_descriptions_def)
  obtain names where n: "getitem blank_posts ''bloggername'' = Inr names"
    by (simp add: getitem_def blank_posts_def blog_table_def)
  obtain shown where
    l: "getitem_list blank_posts [''postdate'', ''bloggername'', ''title'', ''target_keyword'']
        = Inr shown"
    by (simp add: getitem_list_def blank_posts_def blog_table_def)
  note th = blank_documents_not_ranked[OF hangul_no_space hangul_lower_blank b,
      of 30 blank_posts "''description''" "''fig3_tfidf''" blank_posts names shown]
  have 1: "ranking_of (build_analyzer hangul) 30 (fillna blank_descriptions) = Inl ValueError"
    using th by (rule conjunct1)
  have 2: "tfidf_block (build_analyzer hangul) 30 blank_posts ''description'' ''fig3_tfidf''
       = Write Not_enough_text"
    using th g by simp
  have 3: "tab2 (build_analyzer hangul) blank_posts
         = Inr [Counts_chart ''fig2_blog'' (take 20 (value_counts names)),
                Write Not_enough_text, Table shown ''postdate'' 20]"
    using th e g n l by simp
  from 3 have 4: "\<exists>names shown. tab2 (build_analyzer hangul) blank_posts
         = Inr [Counts_chart ''fig2_blog'' (take 20 (value_counts names)),
                Write Not_enough_text, Table shown ''postdate'' 20]"
    by blast
  from b w g e 1 2 4 show ?thesis by (intro conjI)
qed

section \<open>Properties of the brand chart\<close>

lemma value_counts_props:
  "distinct (map fst (value_counts col))
   \<and> set (map fst (value_counts col)) = set (brand_values col)
   \<and> length (value_counts col) = length (brand_values col)
   \<and> (\<forall>p \<in> set (value_counts col). snd p = count_list col (fst p))
   \<and> sorted (map (\<lambda>p. - int (snd p)) (value_counts col))"
proof -
  let ?ps = "map (\<lambda>v. (v, count_list col v)) (brand_values col)"
  have vc: "value_counts col = sort_key (\<lambda>p. - int (snd p)) ?ps"
    by (simp add: value_counts_def brand_values_def)
  have d: "distinct (brand_values col)"
    by (simp add: brand_values_def distinct_unique)
  have dps: "distinct ?ps"
    using d by (simp add: distinct_map inj_on_def)
  have sv: "set (value_counts col) = set ?ps"
    unfolding vc by simp
  have dv: "distinct (value_counts col)"
    unfolding vc using dps by simp
  have inj: "inj_on fst (set (value_counts col))"
    unfolding sv by (auto simp: inj_on_def)
  have 1: "distinct (map fst (value_counts col))"
    using dv inj by (simp add: distinct_map)
  have 2: "set (map fst (value_counts col)) = set (brand_values col)"
    unfolding set_map sv by force
  have 3: "length (value_counts col) = length (brand_values col)"
    unfolding vc by simp
  have 4: "\<forall>p \<in> set (value_counts col). snd p = count_list col (fst p)"
    unfolding sv by auto
  have 5: "sorted (map (\<lambda>p. - int (snd p)) (value_counts col))"
    unfolding vc by simp
  from 1 2 3 4 5 show ?thesis by blast
qed

lemma top_ten_lowest:
  assumes len: "length (brand_values col) = 11"
    and dc: "distinct (map (count_list col) (brand_values col))"
  shows "\<exists>lowest \<in> set (brand_values col).
           (\<forall>b \<in> set (brand_values col) - {lowest}. count_list col lowest < count_list col b)
           \<and> set (map fst (take 10 (value_counts col))) = set (brand_values col) - {lowest}"
proof -
  let ?L = "value_counts col"
  let ?k = "\<lambda>p. - int (snd p)"
  from value_counts_props[of col] have
    d: "distinct (map fst ?L)" and s: "set (map fst ?L) = set (brand_values col)" and
    l: "length ?L = length (brand_values col)" and
    c: "\<forall>p \<in> set ?L. snd p = count_list col (fst p)" and
    so: "sorted (map ?k ?L)" by blast+
  have l11: "length ?L = 11" using l len by simp
  let ?last = "?L ! 10"
  let ?top = "map fst (take 10 ?L)"
  have "?last # drop (Suc 10) ?L = drop 10 ?L"
    by (rule Cons_nth_drop_Suc) (simp add: l11)
  moreover have "drop (Suc 10) ?L = []"
    by (simp add: l11)
  ultimately have dr: "drop 10 ?L = [?last]"
    by simp
  have "map fst ?L = map fst (take 10 ?L @ drop 10 ?L)"
    by simp
  then have split: "map fst ?L = ?top @ [fst ?last]"
    unfolding dr by simp
  have low_in: "fst ?last \<in> set (brand_values col)"
    using s split by (metis in_set_conv_decomp)
  have notin: "fst ?last \<notin> set ?top"
    using d unfolding split by simp
  have un: "set (brand_values col) = set ?top \<union> {fst ?last}"
    using s unfolding split by simp
  have top: "set ?top = set (brand_values col) - {fst ?last}"
    using un notin by blast
  have inj: "inj_on (count_list col) (set (brand_values col))"
    using dc by (simp add: distinct_map)
  have last_in: "?last \<in> set ?L" using l11 by simp
  have less: "count_list col (fst ?last) < count_list col b"
    if b: "b \<in> set (brand_values col) - {fst ?last}" for b
  proof -
    from b have "b \<in> set ?top" unfolding top .
    then obtain p where p: "p \<in> set (take 10 ?L)" "fst p = b" by auto
    have "?last \<in> set (drop 10 ?L)" unfolding dr by simp
    from sorted_take_drop[OF so p(1) this] have "?k p \<le> ?k ?last" .
    moreover have "p \<in> set ?L" using p(1) by (rule in_set_takeD)
    then have "snd p = count_list col b" using c p(2) by auto
    moreover have "snd ?last = count_list col (fst ?last)"
      using c last_in by blast
    ultimately have "count_list col (fst ?last) \<le> count_list col b" by simp
    moreover have "count_list col (fst ?last) \<noteq> count_list col b"
      using inj b low_in by (auto simp: inj_on_def)
    ultimately show ?thesis by simp
  qed
  show ?thesis
    using low_in less top by blast
qed

lemma f_brand_rows:
  assumes "getitem f_shop ''brand'' = Inr col"
  shows "f_brand f_shop
         = Inr (f_shop\<lparr>rows := filter (\<lambda>r. cell_of r ''brand'' \<in> set (map fst (take 10 (value_counts col))))
                                  (rows f_shop)\<rparr>)"
proof -
  from assms have col: "col = map (\<lambda>r. cell_of r ''brand'') (rows f_shop)"
    by (auto simp: getitem_def split: if_splits)
  have m: "map (\<lambda>c. c \<in> S) col = map (\<lambda>r. cell_of r ''brand'' \<in> S) (rows f_shop)" for S
    by (simp add: col comp_def)
  show ?thesis
    unfolding f_brand_def top_brands_def and_then_def assms
    by (simp only: sum.case m getitem_mask_map)
qed

lemma eleven_col:
  "getitem eleven_brands ''brand''
   = Inr (concat (map (\<lambda>p. replicate (snd p) (Str (fst p)))
               [(''A'', 12), (''B'', 8), (''C'', 3), (''D'', 11), (''E'', 10), (''F'', 9),
                (''G'', 7), (''H'', 6), (''I'', 5), (''J'', 4), (''K'', 2)]))"
  by (simp add: getitem_def eleven_brands_def shop_row_def cell_of_def map_replicate_const
      map_concat comp_def)

lemma eleven_getitem: "getitem eleven_brands ''brand'' = Inr eleven_column"
  unfolding eleven_column_def by (rule eleven_col)

lemma eleven_values:
  "brand_values eleven_column
   = [Str ''A'', Str ''B'', Str ''C'', Str ''D'', Str ''E'', Str ''F'', Str ''G'', Str ''H'',
      Str ''I'', Str ''J'', Str ''K'']"
  by (simp add: brand_values_def eleven_column_def eval_nat_numeral)

lemma eleven_counts:
  "map (count_list eleven_column) (brand_values eleven_column)
   = [12, 8, 3, 11, 10, 9, 7, 6, 5, 4, 2]"
  unfolding eleven_values by (simp add: eleven_column_def eval_nat_numeral)

lemma eleven_top:
  "top_brands eleven_brands
   = Inr [Str ''A'', Str ''D'', Str ''E'', Str ''F'', Str ''B'', Str ''G'', Str ''H'', Str ''I'',
          Str ''J'', Str ''C'']"
proof -
  have "value_counts eleven_column
        = sort_key (\<lambda>p. - int (snd p))
            (zip (brand_values eleven_column)
                 (map (count_list eleven_column) (brand_values eleven_column)))"
    by (simp add: value_counts_def brand_values_def zip_map2 zip_same_conv_map comp_def
        case_prod_beta)
  also have "\<dots> = [(Str ''A'', 12), (Str ''D'', 11), (Str ''E'', 10), (Str ''F'', 9), (Str ''B'', 8),
                  (Str ''G'', 7), (Str ''H'', 6), (Str ''I'', 5), (Str ''J'', 4), (Str ''C'', 3),
                  (Str ''K'', 2)]"
    unfolding eleven_counts unfolding eleven_values by simp
  finally show ?thesis
    by (simp add: top_brands_def eleven_getitem and_then_def)
qed

text \<open>
  C9. For a shop table whose \<^verbatim>\<open>brand\<close> column has eleven distinct values (missing
  values aside) with pairwise distinct numbers of rows, one brand has fewer rows than
  every other, the ten most frequent brands are the other ten, and the table of the
  price-range chart has exactly the rows of those ten brands: all their rows, and no
  row of the least frequent brand.
\<close>

theorem top_ten_excludes_lowest:
  assumes "getitem f_shop ''brand'' = Inr col"
    and "length (brand_values col) = 11"
    and "distinct (map (count_list col) (brand_values col))"
  shows "\<exists>lowest \<in> set (brand_values col).
           (\<forall>b \<in> set (brand_values col) - {lowest}. count_list col lowest < count_list col b)
           \<and> (\<exists>top. top_brands f_shop = Inr top \<and> set top = set (brand_values col) - {lowest})
           \<and> f_brand f_shop
               = Inr (f_shop\<lparr>rows := filter (\<lambda>r. cell_of r ''brand''
                                                  \<in> set (brand_values col) - {lowest})
                                         (rows f_shop)\<rparr>)"
proof -
  from top_ten_lowest[OF assms(2,3)] obtain lowest where
    l: "lowest \<in> set (brand_values col)" and
    m: "\<forall>b \<in> set (brand_values col) - {lowest}. count_list col lowest < count_list col b" and
    t: "set (map fst (take 10 (value_counts col))) = set (brand_values col) - {lowest}"
    by blast
  have tb: "top_brands f_shop = Inr (map fst (take 10 (value_counts col)))"
    by (simp add: top_brands_def assms(1) and_then_def)
  have fb: "f_brand f_shop
               = Inr (f_shop\<lparr>rows := filter (\<lambda>r. cell_of r ''brand''
                                                  \<in> set (brand_values col) - {lowest})
                                         (rows f_shop)\<rparr>)"
    using f_brand_rows[OF assms(1)] unfolding t .
  from l m tb t fb show ?thesis by blast
qed

text \<open>
  Witness for C9: the table with eleven brands. \<^verbatim>\<open>K\<close>, in two rows, is left out.
\<close>

theorem top_ten_excludes_lowest_witness:
  "getitem eleven_brands ''brand'' = Inr eleven_column
   \<and> length (brand_values eleven_column) = 11
   \<and> distinct (map (count_list eleven_column) (brand_values eleven_column))
   \<and> count_list eleven_column (Str ''K'') = 2
   \<and> f_brand eleven_brands
       = Inr (eleven_brands\<lparr>rows := filter (\<lambda>r. cell_of r ''brand''
                                                 \<in> set (brand_values eleven_column) - {Str ''K''})
                                        (rows eleven_brands)\<rparr>)"
proof -
  have len: "length (brand_values eleven_column) = 11"
    by (simp add: eleven_values)
  have dis: "distinct (map (count_list eleven_column) (brand_values eleven_column))"
    by (simp add: eleven_counts)
  have k: "count_list eleven_column (Str ''K'') = 2"
    by (simp add: eleven_column_def eval_nat_numeral)
  from top_ten_excludes_lowest[OF eleven_getitem len dis] obtain lowest top where
    l: "lowest \<in> set (brand_values eleven_column)" and
    t: "top_brands eleven_brands = Inr top"
       "set top = set (brand_values eleven_column) - {lowest}" and
    f: "f_brand eleven_brands
         = Inr (eleven_brands\<lparr>rows := filter (\<lambda>r. cell_of r ''brand''
                                                 \<in> set (brand_values eleven_column) - {lowest})
                                        (rows eleven_brands)\<rparr>)"
    by blast
  from t(1) have "top = [Str ''A'', Str ''D'', Str ''E'', Str ''F'', Str ''B'', Str ''G'', Str ''H'',
                         Str ''I'', Str ''J'', Str ''C'']"
    by (simp add: eleven_top)
  then have "Str ''K'' \<notin> set top" by simp
  moreover have "Str ''K'' \<in> set (brand_values eleven_column)" by (simp add: eleven_values)
  ultimately have "lowest = Str ''K''" using t(2) by blast
  with f eleven_getitem len dis k show ?thesis by simp
qed

end
